theory Spec2Isabelle
  imports Main
begin

section \<open>Strings\<close>

text \<open>
  JavaScript strings are modelled as \<^typ>\<open>string\<close>. The model covers ASCII text: case
  conversion maps the 26 ASCII letters and leaves every other character alone, and the
  white space of the regular expression \<^verbatim>\<open>\s\<close> (and of \<^verbatim>\<open>trim\<close>) is tab, line feed,
  vertical tab, form feed, carriage return and space. Every code of the curriculum
  reference is ASCII.
\<close>

definition toUpperChar :: "char \<Rightarrow> char" where
  "toUpperChar c =
     (case map_of (zip ''abcdefghijklmnopqrstuvwxyz'' ''ABCDEFGHIJKLMNOPQRSTUVWXYZ'') c of
        Some u \<Rightarrow> u | None \<Rightarrow> c)"

definition toLowerChar :: "char \<Rightarrow> char" where
  "toLowerChar c =
     (case map_of (zip ''ABCDEFGHIJKLMNOPQRSTUVWXYZ'' ''abcdefghijklmnopqrstuvwxyz'') c of
        Some l \<Rightarrow> l | None \<Rightarrow> c)"

definition isWhitespace :: "char \<Rightarrow> bool" where
  "isWhitespace c = (c \<in> set [CHR 0x09, CHR 0x0A, CHR 0x0B, CHR 0x0C, CHR 0x0D, CHR 0x20])"

definition toUpperCase :: "string \<Rightarrow> string" where
  "toUpperCase s = map toUpperChar s"

definition toLowerCase :: "string \<Rightarrow> string" where
  "toLowerCase s = map toLowerChar s"

text \<open>\<^verbatim>\<open>s.replace(/\s+/g, "")\<close>: every white-space character is removed.\<close>

definition removeWhitespace :: "string \<Rightarrow> string" where
  "removeWhitespace s = filter (\<lambda>c. \<not> isWhitespace c) s"

text \<open>\<^verbatim>\<open>s.trim()\<close>: white space is removed from both ends.\<close>

definition trim :: "string \<Rightarrow> string" where
  "trim s = rev (dropWhile isWhitespace (rev (dropWhile isWhitespace s)))"

text \<open>A number inside a template literal: the decimal digits of a natural number.\<close>

definition digitChar :: "nat \<Rightarrow> char" where
  "digitChar d = ''0123456789'' ! d"

fun string_of_nat :: "nat \<Rightarrow> string" where
  "string_of_nat n =
     (if n < 10 then [digitChar n]
      else string_of_nat (n div 10) @ [digitChar (n mod 10)])"

declare string_of_nat.simps [simp del]

section \<open>The curriculum reference (curriculum-reference.js)\<close>

text \<open>
  An entry of \<^verbatim>\<open>CURRICULUM_REFERENCE\<close>. The object is modelled as the list of its
  (key, entry) pairs in the order of the source, which is the order of
  \<^verbatim>\<open>Object.keys\<close> (no key is an array index).
\<close>

record reference =
  name :: string
  lecUnits :: int
  labUnits :: int
  units :: int
  yearLevel :: string
  semester :: string

definition mkRef :: "string \<Rightarrow> int \<Rightarrow> int \<Rightarrow> int \<Rightarrow> string \<Rightarrow> string \<Rightarrow> reference" where
  "mkRef n lec lab u y s =
     \<lparr>name = n, lecUnits = lec, labUnits = lab, units = u, yearLevel = y, semester = s\<rparr>"

definition CURRICULUM_REFERENCE :: "(string \<times> reference) list" where
  "CURRICULUM_REFERENCE = [
  (''CS 101'', mkRef ''Introduction to Computing'' 3 0 3 ''1st Year'' ''1st Semester''),
  (''CS 102'', mkRef ''Computer Programming 1 (Fundamentals of Programming)'' 2 1 3 ''1st Year'' ''1st Semester''),
  (''Math 101'', mkRef ''Mathematical Analysis 1'' 5 0 5 ''1st Year'' ''1st Semester''),
  (''Phys 1'', mkRef ''Physics for Computing'' 3 0 3 ''1st Year'' ''1st Semester''),
  (''GEC 11'', mkRef ''Understanding the Self'' 3 0 3 ''1st Year'' ''1st Semester''),
  (''PATHFIT 1'', mkRef ''Movement Competency Training'' 2 0 2 ''1st Year'' ''1st Semester''),
  (''NSTP 11'', mkRef ''LTS/CWTS/ROTC'' 3 0 3 ''1st Year'' ''1st Semester''),
  (''CS 103'', mkRef ''Computer Programming 2 (Intermediate Programming)'' 2 1 3 ''1st Year'' ''2nd Semester''),
  (''CS 107'', mkRef ''Digital System Design'' 2 1 3 ''1st Year'' ''2nd Semester''),
  (''Math 102'', mkRef ''Mathematical Analysis 2'' 5 0 5 ''1st Year'' ''2nd Semester''),
  (''GEC 12'', mkRef ''Readings in the Philippine History'' 3 0 3 ''1st Year'' ''2nd Semester''),
  (''GEC 13'', mkRef ''The Contemporary World'' 3 0 3 ''1st Year'' ''2nd Semester''),
  (''PATHFIT 2'', mkRef ''Exercise-based Fitness Activities'' 2 0 2 ''1st Year'' ''2nd Semester''),
  (''NSTP 2'', mkRef ''LTS/CWTS/ROTC'' 3 0 3 ''1st Year'' ''2nd Semester''),
  (''CS 104'', mkRef ''Data Structure and Algorithm'' 2 1 3 ''2nd Year'' ''1st Semester''),
  (''CS 106'', mkRef ''Application Development and Emerging Technologies'' 2 1 3 ''2nd Year'' ''1st Semester''),
  (''CS 108'', mkRef ''Object-oriented Programming'' 2 1 3 ''2nd Year'' ''1st Semester''),
  (''CS 109'', mkRef ''Discrete Structures 1'' 3 0 3 ''2nd Year'' ''1st Semester''),
  (''Math Elec 101'', mkRef ''Linear Algebra'' 3 0 3 ''2nd Year'' ''1st Semester''),
  (''GEC 14'', mkRef ''Mathematics in the Modern World'' 3 0 3 ''2nd Year'' ''1st Semester''),
  (''PATHFIT 3'', mkRef ''Menu of Dance, Sports, Martial Arts, Group Exercises and Outdoor Adventure Activities'' 2 0 2 ''2nd Year'' ''1st Semester''),
  (''CS 105'', mkRef ''Information Management'' 2 1 3 ''2nd Year'' ''2nd Semester''),
  (''CS 110'', mkRef ''Discrete Structures 2'' 3 0 3 ''2nd Year'' ''2nd Semester''),
  (''CS 111'', mkRef ''Design and Analysis of Algorithms'' 3 0 3 ''2nd Year'' ''2nd Semester''),
  (''CS 112'', mkRef ''Programming Languages'' 2 1 3 ''2nd Year'' ''2nd Semester''),
  (''CS 113'', mkRef ''Special Topics In Computing'' 1 0 1 ''2nd Year'' ''2nd Semester''),
  (''Math Elec 102'', mkRef ''Differential Equations'' 3 0 3 ''2nd Year'' ''2nd Semester''),
  (''GEC 15'', mkRef ''Purposive Communication'' 3 0 3 ''2nd Year'' ''2nd Semester''),
  (''PATHFIT 4'', mkRef ''Menu of Dance, Sports, Martial Arts, Group Exercises and Outdoor Adventure Activities'' 2 0 2 ''2nd Year'' ''2nd Semester''),
  (''CS 114'', mkRef ''Operating Systems'' 2 1 3 ''3rd Year'' ''1st Semester''),
  (''CS 115'', mkRef ''Computer Architecture and Organization'' 3 0 3 ''3rd Year'' ''1st Semester''),
  (''CS 116'', mkRef ''Automata Theory and Formal Languages'' 3 0 3 ''3rd Year'' ''1st Semester''),
  (''CS 117'', mkRef ''Software Engineering 1'' 2 1 3 ''3rd Year'' ''1st Semester''),
  (''CS Elec 1'', mkRef ''CS Elective 1'' 3 0 3 ''3rd Year'' ''1st Semester''),
  (''GEC 16'', mkRef ''Art Appreciation'' 3 0 3 ''3rd Year'' ''1st Semester''),
  (''CS 118'', mkRef ''Software Engineering 2'' 2 1 3 ''3rd Year'' ''2nd Semester''),
  (''CS 119'', mkRef ''Networks and Communications'' 2 1 3 ''3rd Year'' ''2nd Semester''),
  (''CS 120'', mkRef ''Human Computer Interaction'' 1 0 1 ''3rd Year'' ''2nd Semester''),
  (''CS 121'', mkRef ''Information Assurance and Security'' 2 0 2 ''3rd Year'' ''2nd Semester''),
  (''CS Elec 2'', mkRef ''CS Elective 2'' 2 1 3 ''3rd Year'' ''2nd Semester''),
  (''GEC 17'', mkRef ''Science, Technology and Society'' 3 0 3 ''3rd Year'' ''2nd Semester''),
  (''GEC 18'', mkRef ''Ethics'' 3 0 3 ''3rd Year'' ''2nd Semester''),
  (''CS 122'', mkRef ''Practicum (240 hours)'' 3 0 3 ''3rd Year'' ''Summer''),
  (''CS 123'', mkRef ''Numerical Analysis'' 3 0 3 ''4th Year'' ''1st Semester''),
  (''CS 124'', mkRef ''CS Thesis 1'' 2 1 3 ''4th Year'' ''1st Semester''),
  (''CS Elec 3'', mkRef ''CS Elective 3'' 3 0 3 ''4th Year'' ''1st Semester''),
  (''GEC 20'', mkRef ''The Entrepreneurial Mind'' 3 0 3 ''4th Year'' ''1st Semester''),
  (''GEC Elec 1'', mkRef ''Environmental Science'' 3 0 3 ''4th Year'' ''1st Semester''),
  (''GEC Elec 22'', mkRef ''Great Books'' 3 0 3 ''4th Year'' ''1st Semester''),
  (''CS 125'', mkRef ''CS Thesis 2'' 3 0 3 ''4th Year'' ''2nd Semester''),
  (''CS 126'', mkRef ''Social Issues and Professional Practice'' 3 0 3 ''4th Year'' ''2nd Semester''),
  (''GEC 19'', mkRef ''Life and Works of Rizal'' 3 0 3 ''4th Year'' ''2nd Semester''),
  (''GEC Elec 2'', mkRef ''Living in the IT Era'' 3 0 3 ''4th Year'' ''2nd Semester''),
  (''GEC Elec 21'', mkRef ''Human Reproduction'' 3 0 3 ''4th Year'' ''2nd Semester'')
  ]"

section \<open>Subjects and validations (server.js)\<close>

text \<open>One row of a document, as the recogniser's output is cleaned into.\<close>

record subject =
  subjectCode :: string
  subjectName :: string
  lecUnits :: int
  labUnits :: int
  units :: int
  yearLevel :: string
  semester :: string

text \<open>
  The object \<^verbatim>\<open>validation\<close> of \<^verbatim>\<open>validateExtractionQuality\<close>. The object built
  when an image fails has no field \<^verbatim>\<open>missingCourses\<close>, hence the option.
\<close>

record validation =
  isGood :: bool
  issues :: "string list"
  warnings :: "string list"
  subjectCount :: nat
  missingCourses :: "string list option"

record expected =
  min_count :: nat
  max_count :: nat
  description :: string

text \<open>The object \<^verbatim>\<open>validation\<close> of \<^verbatim>\<open>validateOverallExtraction\<close>.\<close>

record overall_validation =
  success :: bool
  quality :: string
  totalCount :: nat
  issues :: "string list"
  warnings :: "string list"
  missingCourses :: "string list"
  byYear :: "string \<rightharpoonup> nat"


section \<open>Validation of one image (validateExtractionQuality)\<close>

definition expectedCounts :: "int \<Rightarrow> expected option" where
  "expectedCounts imageNumber =
     (if imageNumber = 1 then
        Some \<lparr>min_count = 27, max_count = 31, description = ''1st & 2nd Year''\<rparr>
      else if imageNumber = 2 then
        Some \<lparr>min_count = 23, max_count = 27, description = ''3rd Year + Summer + 4th Year''\<rparr>
      else None)"

text \<open>\<^verbatim>\<open>${expected.min}-${expected.max}\<close>\<close>

definition rangeText :: "expected \<Rightarrow> string" where
  "rangeText e = string_of_nat (min_count e) @ ''-'' @ string_of_nat (max_count e)"

text \<open>
  The check of the number of subjects against the expected range. It sets the tentative
  \<^verbatim>\<open>isGood = true\<close> when the number is within the range.
\<close>

definition countCheck :: "subject list \<Rightarrow> int \<Rightarrow> validation \<Rightarrow> validation" where
  "countCheck subjects imageNumber v =
     (case expectedCounts imageNumber of
        None \<Rightarrow> v
      | Some e \<Rightarrow>
          if length subjects < min_count e then
            v\<lparr>validation.issues := validation.issues v @
               [''Only '' @ string_of_nat (length subjects) @ '' subjects found (expected '' @
                rangeText e @ '' for '' @ description e @ '')'']\<rparr>
          else if length subjects > max_count e then
            v\<lparr>validation.warnings := validation.warnings v @
               [''Found '' @ string_of_nat (length subjects) @ '' subjects (expected '' @
                rangeText e @ ''). May have duplicates.'']\<rparr>
          else v\<lparr>isGood := True\<rparr>)"

text \<open>
  \<^verbatim>\<open>byYear[s.yearLevel] = (byYear[s.yearLevel] || 0) + 1\<close> over the subjects: the
  dictionary of the number of subjects of each year level.
\<close>

fun countByYear :: "(string \<rightharpoonup> nat) \<Rightarrow> subject list \<Rightarrow> (string \<rightharpoonup> nat)" where
  "countByYear m [] = m"
| "countByYear m (s # ss) =
     countByYear (m(yearLevel s \<mapsto> (case m (yearLevel s) of None \<Rightarrow> 0 | Some n \<Rightarrow> n) + 1)) ss"

text \<open>\<^verbatim>\<open>!byYear[year] || byYear[year] < k\<close>\<close>

definition yearBelow :: "(string \<rightharpoonup> nat) \<Rightarrow> string \<Rightarrow> nat \<Rightarrow> bool" where
  "yearBelow m year k = (case m year of None \<Rightarrow> True | Some n \<Rightarrow> n = 0 \<or> n < k)"

definition pushIssue :: "string \<Rightarrow> validation \<Rightarrow> validation" where
  "pushIssue msg v = v\<lparr>validation.issues := validation.issues v @ [msg]\<rparr>"

definition pushWarning :: "string \<Rightarrow> validation \<Rightarrow> validation" where
  "pushWarning msg v = v\<lparr>validation.warnings := validation.warnings v @ [msg]\<rparr>"

text \<open>The checks under \<^verbatim>\<open>if (imageNumber === 1)\<close>.\<close>

definition image1Checks :: "(string \<rightharpoonup> nat) \<Rightarrow> validation \<Rightarrow> validation" where
  "image1Checks m v =
     (let v = (if yearBelow m ''1st Year'' 12
               then pushIssue ''1st Year incomplete or missing'' v else v);
          v = (if yearBelow m ''2nd Year'' 13
               then pushIssue ''2nd Year incomplete or missing'' v else v)
      in v)"

text \<open>
  The checks under \<^verbatim>\<open>if (imageNumber === 2)\<close>. In the branch where
  \<^verbatim>\<open>hasSummer\<close> holds, \<^verbatim>\<open>find\<close> returns a subject; the case \<open>None\<close> cannot arise.
\<close>

definition image2Checks :: "subject list \<Rightarrow> (string \<rightharpoonup> nat) \<Rightarrow> validation \<Rightarrow> validation" where
  "image2Checks subjects m v =
     (let v = (if yearBelow m ''3rd Year'' 11
               then pushIssue ''3rd Year incomplete or missing'' v else v);
          v = (if yearBelow m ''4th Year'' 9
               then pushIssue ''4th Year incomplete or missing'' v else v);
          hasSummer = list_ex (\<lambda>s. subjectCode s = ''CS 122'') subjects
      in if \<not> hasSummer then
           (pushIssue ''Summer semester missing (CS 122 - Practicum)'' v)
             \<lparr>validation.missingCourses :=
                map_option (\<lambda>ms. ms @ [''CS 122'']) (validation.missingCourses v)\<rparr>
         else
           (case find (\<lambda>s. subjectCode s = ''CS 122'') subjects of
              None \<Rightarrow> v
            | Some cs122 \<Rightarrow>
                if semester cs122 \<noteq> ''Summer'' then
                  pushWarning (''CS 122 in wrong semester ('' @ semester cs122 @
                               ''), should be Summer'') v
                else v))"

text \<open>
  The state of \<^verbatim>\<open>validation\<close> just before the last assignment to \<^verbatim>\<open>isGood\<close>.
\<close>

definition validateBeforeFinal :: "subject list \<Rightarrow> int \<Rightarrow> validation" where
  "validateBeforeFinal subjects imageNumber =
     (let v = \<lparr>isGood = False, issues = [], warnings = [],
                subjectCount = length subjects, missingCourses = Some []\<rparr>;
          v = countCheck subjects imageNumber v;
          m = countByYear Map.empty subjects;
          v = (if imageNumber = 1 then image1Checks m v else v);
          v = (if imageNumber = 2 then image2Checks subjects m v else v)
      in v)"

definition validateExtractionQuality :: "subject list \<Rightarrow> int \<Rightarrow> validation" where
  "validateExtractionQuality subjects imageNumber =
     (let v = validateBeforeFinal subjects imageNumber
      in v\<lparr>isGood := (length (validation.issues v) = 0)\<rparr>)"


section \<open>Validation of the whole scan (validateOverallExtraction)\<close>

text \<open>
  An element of \<^verbatim>\<open>imageResults\<close>. The field \<^verbatim>\<open>validation\<close> stays \<^verbatim>\<open>null\<close> when
  the recogniser's answer has no array of subjects. The field \<^verbatim>\<open>quality\<close> (the
  measurements of the image) plays no part in any validation and is left out.
\<close>

record imageResult =
  imageNumber :: int
  originalFile :: string
  subjects :: "subject list"
  validation :: "validation option"

text \<open>
  \<^verbatim>\<open>imageResults[i]?.validation?.isGood || false\<close>: \<open>passed\<close> reads the flag of an
  element (false when its validation is \<^verbatim>\<open>null\<close>), \<open>imageGood\<close> is false as well
  when the list has no element at the index.
\<close>

definition passed :: "imageResult \<Rightarrow> bool" where
  "passed r = (case validation r of None \<Rightarrow> False | Some v \<Rightarrow> isGood v)"

definition imageGood :: "imageResult list \<Rightarrow> nat \<Rightarrow> bool" where
  "imageGood imageResults i =
     (if i < length imageResults then passed (imageResults ! i) else False)"

definition addIssue :: "string \<Rightarrow> overall_validation \<Rightarrow> overall_validation" where
  "addIssue msg v = v\<lparr>issues := issues v @ [msg]\<rparr>"

definition addWarning :: "string \<Rightarrow> overall_validation \<Rightarrow> overall_validation" where
  "addWarning msg v = v\<lparr>warnings := warnings v @ [msg]\<rparr>"

text \<open>The chain of tests on \<^verbatim>\<open>allSubjects.length\<close>.\<close>

definition totalCountCheck ::
  "subject list \<Rightarrow> imageResult list \<Rightarrow> overall_validation \<Rightarrow> overall_validation" where
  "totalCountCheck allSubjects imageResults v =
     (let image1Good = imageGood imageResults 0;
          image2Good = imageGood imageResults 1;
          bothImagesGood = (image1Good \<and> image2Good);
          n = length allSubjects
      in if n \<ge> 54 then v\<lparr>quality := ''excellent'', success := True\<rparr>
         else if n \<ge> 50 then
           addWarning (string_of_nat (54 - n) @ '' subjects missing'')
             (v\<lparr>quality := ''good'', success := True\<rparr>)
         else if n \<ge> 45 then
           (if bothImagesGood \<or> (length imageResults = 1 \<and> image1Good) then
              addWarning (''Only '' @ string_of_nat n @
                          ''/54 subjects total, but image quality is good'')
                (v\<lparr>quality := ''moderate'', success := True\<rparr>)
            else
              addIssue (''Only '' @ string_of_nat n @ ''/54 subjects extracted'')
                (v\<lparr>quality := ''moderate''\<rparr>))
         else
           (if length imageResults = 1 \<and> (image1Good \<or> image2Good) then
              addWarning (''Partial scan: '' @ string_of_nat n @
                          '' subjects extracted from 1 image'')
                (v\<lparr>quality := ''moderate'', success := True\<rparr>)
            else
              addIssue (''Very poor extraction: only '' @ string_of_nat n @ ''/54 subjects'')
                (v\<lparr>quality := ''poor''\<rparr>)))"

text \<open>
  \<^verbatim>\<open>expectedYears.forEach\<close>, under \<^verbatim>\<open>if (imageResults.length === 2)\<close>:
  \<^verbatim>\<open>!validation.byYear[year] || validation.byYear[year] === 0\<close>.
\<close>

definition yearAbsent :: "(string \<rightharpoonup> nat) \<Rightarrow> string \<Rightarrow> bool" where
  "yearAbsent m year = (case m year of None \<Rightarrow> True | Some n \<Rightarrow> n = 0)"

fun yearsCheck :: "string list \<Rightarrow> overall_validation \<Rightarrow> overall_validation" where
  "yearsCheck [] v = v"
| "yearsCheck (year # years) v =
     yearsCheck years
       (if yearAbsent (byYear v) year then addIssue (year @ '' completely missing'') v else v)"

definition expectedYears :: "string list" where
  "expectedYears = [''1st Year'', ''2nd Year'', ''3rd Year'', ''4th Year'']"

definition summerCheck ::
  "subject list \<Rightarrow> imageResult list \<Rightarrow> overall_validation \<Rightarrow> overall_validation" where
  "summerCheck allSubjects imageResults v =
     (let hasSummer = list_ex (\<lambda>s. subjectCode s = ''CS 122'') allSubjects
      in if \<not> hasSummer \<and> length imageResults = 2 then
           (addIssue ''Summer semester missing (CS 122)'' v)
             \<lparr>missingCourses := missingCourses v @ [''CS 122'']\<rparr>
         else v)"

text \<open>
  \<^verbatim>\<open>allReferenceCodes.filter((code) => !extractedCodes.has(code))\<close>: the set holds the
  subject codes as they are, and \<^verbatim>\<open>has\<close> compares strings for equality.
\<close>

definition findMissing :: "subject list \<Rightarrow> string list" where
  "findMissing allSubjects =
     (let extractedCodes = set (map subjectCode allSubjects);
          allReferenceCodes = map fst CURRICULUM_REFERENCE
      in filter (\<lambda>code. code \<notin> extractedCodes) allReferenceCodes)"

text \<open>
  The object \<^verbatim>\<open>validation\<close> once the subjects are counted by year
  (\<^verbatim>\<open>allSubjects.forEach\<close>), then its state before \<^verbatim>\<open>missingCourses\<close> is assigned the
  difference.
\<close>

definition countedOverall :: "subject list \<Rightarrow> overall_validation" where
  "countedOverall allSubjects =
     (let v = \<lparr>success = False, quality = ''poor'', totalCount = length allSubjects,
                issues = [], warnings = [], missingCourses = [], byYear = Map.empty\<rparr>
      in v\<lparr>byYear := countByYear (byYear v) allSubjects\<rparr>)"

definition overallBeforeMissing :: "subject list \<Rightarrow> imageResult list \<Rightarrow> overall_validation" where
  "overallBeforeMissing allSubjects imageResults =
     (let v = countedOverall allSubjects;
          v = totalCountCheck allSubjects imageResults v;
          v = (if length imageResults = 2 then yearsCheck expectedYears v else v);
          v = summerCheck allSubjects imageResults v
      in v)"

definition validateOverallExtraction :: "subject list \<Rightarrow> imageResult list \<Rightarrow> overall_validation" where
  "validateOverallExtraction allSubjects imageResults =
     (overallBeforeMissing allSubjects imageResults)
       \<lparr>missingCourses := findMissing allSubjects\<rparr>"

section \<open>Hydration from the reference (hydrateSubjectsFromReference)\<close>

text \<open>The normalisation of both sides of the lookup: upper case, all white space removed.\<close>

definition normalizeCode :: "string \<Rightarrow> string" where
  "normalizeCode s = removeWhitespace (toUpperCase s)"

text \<open>
  \<^verbatim>\<open>refLookup\<close>: filled key by key in the order of \<^verbatim>\<open>Object.keys\<close>; a later key
  with the same normalised form would replace an earlier one.
\<close>

definition refLookup :: "string \<rightharpoonup> (string \<times> reference)" where
  "refLookup =
     foldl (\<lambda>m (key, r). m(normalizeCode key \<mapsto> (key, r))) Map.empty CURRICULUM_REFERENCE"

definition hydrateSubject :: "subject \<Rightarrow> subject" where
  "hydrateSubject s =
     (let code = trim (subjectCode s);
          normalizedCode = removeWhitespace (toUpperCase code)
      in case refLookup normalizedCode of
           Some (refKey, r) \<Rightarrow>
             \<lparr>subjectCode = refKey,
              subjectName = name r,
              lecUnits = reference.lecUnits r,
              labUnits = reference.labUnits r,
              units = reference.units r,
              yearLevel = reference.yearLevel r,
              semester = reference.semester r\<rparr>
         | None \<Rightarrow> s)"

definition hydrateSubjectsFromReference :: "subject list \<Rightarrow> subject list" where
  "hydrateSubjectsFromReference subjs = map hydrateSubject subjs"

section \<open>Deduplication (the filter of the scan-curriculum route)\<close>

definition dedupKey :: "subject \<Rightarrow> string" where
  "dedupKey s = removeWhitespace (toLowerCase (subjectCode s))"

text \<open>
  \<^verbatim>\<open>allSubjects.filter\<close> with the set \<^verbatim>\<open>seen\<close>, which the callback extends as it
  goes through the list.
\<close>

fun filterSeen :: "string set \<Rightarrow> subject list \<Rightarrow> subject list" where
  "filterSeen seen [] = []"
| "filterSeen seen (s # ss) =
     (let key = dedupKey s
      in if key \<in> seen then filterSeen seen ss
         else s # filterSeen (insert key seen) ss)"

definition uniqueSubjects :: "subject list \<Rightarrow> subject list" where
  "uniqueSubjects allSubjects = filterSeen {} allSubjects"


section \<open>The scan-curriculum route\<close>

text \<open>A file as the upload middleware hands it over.\<close>

record uploaded_file =
  originalname :: string
  mimetype :: string
  path :: string

text \<open>
  \<^verbatim>\<open>fileFilter\<close> of the upload middleware: \<open>Inr True\<close> is \<^verbatim>\<open>cb(null, true)\<close>, \<open>Inl msg\<close>
  is \<^verbatim>\<open>cb(new Error(msg))\<close>.
\<close>

definition fileFilter :: "uploaded_file \<Rightarrow> string + bool" where
  "fileFilter file =
     (let allowed = [''image/jpeg'', ''image/png'', ''image/webp'']
      in if mimetype file \<in> set allowed then Inr True
         else Inl ''Only JPG, PNG, and WEBP images are allowed'')"

text \<open>
  A row of the recogniser's answer before cleaning. A text field is \<open>None\<close> when the
  answer lacks it; a number field is \<open>None\<close> when the answer lacks it or \<^verbatim>\<open>parseInt\<close>
  finds no number in it.
\<close>

record raw_subject =
  rawSubjectCode :: "string option"
  rawSubjectName :: "string option"
  rawLecUnits :: "int option"
  rawLabUnits :: "int option"
  rawUnits :: "int option"
  rawYearLevel :: "string option"
  rawSemester :: "string option"

text \<open>
  What the \<^verbatim>\<open>try\<close> block of one image meets. \<open>Threw msg\<close>: \<^verbatim>\<open>sendToGroq\<close> raises
  an exception with message \<open>msg\<close> (a transport error, or an answer that cannot be
  parsed); the call stands before the push onto \<^verbatim>\<open>allSubjects\<close>.
  \<open>Parsed None\<close>: the answer is parsed and has no array \<^verbatim>\<open>subjects\<close>.
  \<open>Parsed (Some rows)\<close>: the answer has the rows \<open>rows\<close>, each with text and number
  fields as the record above has them. The analysis and the preprocessing of the image
  catch their own exceptions.
\<close>

datatype groq_outcome = Threw string | Parsed "raw_subject list option"

text \<open>\<^verbatim>\<open>v || d\<close> on a text field: the default replaces a missing or empty text.\<close>

definition orElse :: "string option \<Rightarrow> string \<Rightarrow> string" where
  "orElse v d = (case v of None \<Rightarrow> d | Some s \<Rightarrow> if s = [] then d else s)"

text \<open>\<^verbatim>\<open>parseInt(v) || 0\<close>\<close>

definition parseIntOr0 :: "int option \<Rightarrow> int" where
  "parseIntOr0 v = (case v of None \<Rightarrow> 0 | Some n \<Rightarrow> n)"

definition cleanSubject :: "nat \<Rightarrow> raw_subject \<Rightarrow> subject" where
  "cleanSubject idx s =
     \<lparr>subjectCode = orElse (rawSubjectCode s) (''UNKNOWN_'' @ string_of_nat (idx + 1)),
      subjectName = orElse (rawSubjectName s) [],
      lecUnits = parseIntOr0 (rawLecUnits s),
      labUnits = parseIntOr0 (rawLabUnits s),
      units = parseIntOr0 (rawUnits s),
      yearLevel = orElse (rawYearLevel s) ''Unknown'',
      semester = orElse (rawSemester s) ''Unknown''\<rparr>"

text \<open>
  The body of the loop for one image: the image's result and the subjects it pushes
  onto \<^verbatim>\<open>allSubjects\<close>. The \<^verbatim>\<open>catch\<close> of the loop records the exception's message
  and lets the loop go on.
\<close>

definition processImage ::
  "(uploaded_file \<Rightarrow> groq_outcome) \<Rightarrow> int \<Rightarrow> uploaded_file \<Rightarrow> imageResult \<times> subject list" where
  "processImage sendToGroq imageNum file =
     (let imageResult = \<lparr>imageNumber = imageNum, originalFile = originalname file,
                          subjects = [], validation = None\<rparr>
      in case sendToGroq file of
           Threw msg \<Rightarrow>
             (imageResult\<lparr>validation :=
                Some \<lparr>isGood = False, issues = [msg], warnings = [],
                      subjectCount = 0, missingCourses = None\<rparr>\<rparr>, [])
         | Parsed None \<Rightarrow> (imageResult, [])
         | Parsed (Some rows) \<Rightarrow>
             (let cleaned = map (\<lambda>(idx, s). cleanSubject idx s) (enumerate 0 rows);
                  hydrated = hydrateSubjectsFromReference cleaned
              in (imageResult\<lparr>subjects := hydrated,
                    validation := Some (validateExtractionQuality hydrated imageNum)\<rparr>,
                  hydrated)))"

text \<open>
  \<^verbatim>\<open>for (let i = 0; i < files.length; i++)\<close>, with the two accumulators
  \<^verbatim>\<open>imageResults\<close> and \<^verbatim>\<open>allSubjects\<close>.
\<close>

fun processImages ::
  "(uploaded_file \<Rightarrow> groq_outcome) \<Rightarrow> nat \<Rightarrow> uploaded_file list \<Rightarrow>
   imageResult list \<times> subject list \<Rightarrow> imageResult list \<times> subject list" where
  "processImages sendToGroq i [] acc = acc"
| "processImages sendToGroq i (file # files) (imageResults, allSubjects) =
     (let (imageResult, pushed) = processImage sendToGroq (int i + 1) file
      in processImages sendToGroq (Suc i) files
           (imageResults @ [imageResult], allSubjects @ pushed))"

text \<open>The body of the answer to a processed request.\<close>

record scan_report =
  reportSuccess :: bool
  reportQuality :: string
  dataSubjects :: "subject list"
  totalSubjectsFound :: nat
  imagesProcessed :: nat
  reportValidation :: overall_validation
  reportImageResults :: "imageResult list"
  image1Good :: bool
  image2Good :: bool

text \<open>
  \<open>Rejected status msg\<close> is \<^verbatim>\<open>res.status(status).json({success: false, error: msg,
  quality: "error"})\<close>; \<open>Report r\<close> is \<^verbatim>\<open>res.json(r)\<close>.
\<close>

datatype response = Rejected nat string | Report scan_report

text \<open>
  The handler of the route. \<open>reqFiles\<close> is \<^verbatim>\<open>req.files\<close> (\<open>None\<close> when undefined),
  \<open>apiKeySet\<close> says whether \<^verbatim>\<open>process.env.GROQ_API_KEY\<close> is set. The two guards come
  first, in the order of the source. The logging is left out; with subjects whose
  fields are strings and numbers nothing after the loop raises, so the outer
  \<^verbatim>\<open>catch\<close> has no case here.
\<close>

definition scanCurriculum ::
  "uploaded_file list option \<Rightarrow> bool \<Rightarrow> (uploaded_file \<Rightarrow> groq_outcome) \<Rightarrow> response" where
  "scanCurriculum reqFiles apiKeySet sendToGroq =
     (case reqFiles of
        None \<Rightarrow> Rejected 400 ''No image(s) uploaded''
      | Some files \<Rightarrow>
          if length files = 0 then Rejected 400 ''No image(s) uploaded''
          else if \<not> apiKeySet then Rejected 500 ''GROQ_API_KEY not set''
          else
            (let (imageResults, allSubjects) = processImages sendToGroq 0 files ([], []);
                 uniq = uniqueSubjects allSubjects;
                 overallValidation = validateOverallExtraction uniq imageResults
             in Report
                  \<lparr>reportSuccess = success overallValidation,
                   reportQuality = quality overallValidation,
                   dataSubjects = uniq,
                   totalSubjectsFound = length uniq,
                   imagesProcessed = length files,
                   reportValidation = overallValidation,
                   reportImageResults = imageResults,
                   image1Good = imageGood imageResults 0,
                   image2Good = imageGood imageResults 1\<rparr>))"

section \<open>The upload middleware before the handler\<close>

text \<open>
  \<^verbatim>\<open>upload.array("image", 2)\<close> stands before the handler in the route. The middleware
  is the upload library's, not the repository's; the route depends on this much of its
  contract. The files of the request are taken in order. A file beyond the second is
  refused with the error "Unexpected field". Every other file is passed to
  \<^verbatim>\<open>fileFilter\<close>: an error ends the upload with that error, \<^verbatim>\<open>cb(null, true)\<close> keeps the
  file. The files are taken to be within the size limit. \<open>Inl err\<close> is the error passed
  on, \<open>Inr files\<close> the array \<^verbatim>\<open>req.files\<close>.
\<close>

fun uploadArray :: "nat \<Rightarrow> uploaded_file list \<Rightarrow> string + uploaded_file list" where
  "uploadArray filesLeft [] = Inr []"
| "uploadArray filesLeft (file # rest) =
     (if filesLeft = 0 then Inl ''Unexpected field''
      else case fileFilter file of
             Inl err \<Rightarrow> Inl err
           | Inr keep \<Rightarrow>
               (case uploadArray (filesLeft - 1) rest of
                  Inl err \<Rightarrow> Inl err
                | Inr accepted \<Rightarrow> Inr (if keep then file # accepted else accepted)))"

text \<open>
  The answer of the route. When the middleware passes an error on, the handler is not
  called; the source installs no error handler and sets no status on the error, so the
  framework's default error handler answers, with status 500: \<open>DefaultError 500 err\<close>.
  Otherwise the handler answers: \<open>Handled response\<close>. \<open>incoming\<close> is \<open>None\<close> for a
  request that is not a multipart form, which the middleware lets through with
  \<^verbatim>\<open>req.files\<close> undefined.
\<close>

datatype route_answer = DefaultError nat string | Handled response

definition scanCurriculumRoute ::
  "uploaded_file list option \<Rightarrow> bool \<Rightarrow> (uploaded_file \<Rightarrow> groq_outcome) \<Rightarrow> route_answer" where
  "scanCurriculumRoute incoming apiKeySet sendToGroq =
     (case incoming of
        None \<Rightarrow> Handled (scanCurriculum None apiKeySet sendToGroq)
      | Some sent \<Rightarrow>
          (case uploadArray 2 sent of
             Inl err \<Rightarrow> DefaultError 500 err
           | Inr files \<Rightarrow> Handled (scanCurriculum (Some files) apiKeySet sendToGroq)))"

section \<open>Sample data and auxiliary notions\<close>

text \<open>A subject whose code and year level are outside the reference.\<close>

definition unknownSubject :: subject where
  "unknownSubject =
     \<lparr>subjectCode = ''X'', subjectName = [], lecUnits = 0, labUnits = 0, units = 0,
      yearLevel = ''Unknown'', semester = ''Unknown''\<rparr>"

text \<open>
  The entries of the reference as subjects, and the first \<open>n\<close> of them: a list of
  subjects with distinct keys, as the deduplication leaves it.
\<close>

definition catalogSubjects :: "subject list" where
  "catalogSubjects =
     map (\<lambda>(key, r).
            \<lparr>subjectCode = key, subjectName = name r,
             lecUnits = reference.lecUnits r, labUnits = reference.labUnits r,
             units = reference.units r, yearLevel = reference.yearLevel r,
             semester = reference.semester r\<rparr>)
       CURRICULUM_REFERENCE"

definition firstSubjects :: "nat \<Rightarrow> subject list" where
  "firstSubjects n = take n catalogSubjects"

text \<open>The result of an image that passed, and of one that failed with an issue.\<close>

definition goodImage :: imageResult where
  "goodImage =
     \<lparr>imageNumber = 1, originalFile = ''a.png'', subjects = [],
      validation = Some \<lparr>isGood = True, issues = [], warnings = [],
                          subjectCount = 0, missingCourses = Some []\<rparr>\<rparr>"

definition badImage :: imageResult where
  "badImage =
     \<lparr>imageNumber = 2, originalFile = ''b.png'', subjects = [],
      validation = Some \<lparr>isGood = False, issues = [''timeout''], warnings = [],
                          subjectCount = 0, missingCourses = None\<rparr>\<rparr>"

text \<open>A row read as "cs  101" with stray spaces, before hydration.\<close>

definition looseCS101 :: subject where
  "looseCS101 =
     \<lparr>subjectCode = '' cs  101 '', subjectName = ''Intro'', lecUnits = 0, labUnits = 0,
      units = 0, yearLevel = ''Unknown'', semester = ''Unknown''\<rparr>"

text \<open>The entry of the reference for CS 101, as a subject.\<close>

definition canonicalCS101 :: subject where
  "canonicalCS101 =
     \<lparr>subjectCode = ''CS 101'', subjectName = ''Introduction to Computing'', lecUnits = 3,
      labUnits = 0, units = 3, yearLevel = ''1st Year'', semester = ''1st Semester''\<rparr>"

text \<open>Two rows whose codes differ in case and spacing only.\<close>

definition subjectA :: subject where
  "subjectA =
     \<lparr>subjectCode = ''CS 101'', subjectName = ''A'', lecUnits = 0, labUnits = 0,
      units = 0, yearLevel = ''Unknown'', semester = ''Unknown''\<rparr>"

definition subjectB :: subject where
  "subjectB =
     \<lparr>subjectCode = ''cs101'', subjectName = ''B'', lecUnits = 0, labUnits = 0,
      units = 0, yearLevel = ''Unknown'', semester = ''Unknown''\<rparr>"

text \<open>
  Two uploaded images, a PDF file, and a recogniser that fails on the first image and
  reads one row on the second.
\<close>

definition fileA :: uploaded_file where
  "fileA = \<lparr>originalname = ''a.png'', mimetype = ''image/png'', path = ''uploads/a''\<rparr>"

definition fileB :: uploaded_file where
  "fileB = \<lparr>originalname = ''b.png'', mimetype = ''image/png'', path = ''uploads/b''\<rparr>"

definition pdfFile :: uploaded_file where
  "pdfFile =
     \<lparr>originalname = ''c.pdf'', mimetype = ''application/pdf'', path = ''uploads/c''\<rparr>"

definition rawLoose :: raw_subject where
  "rawLoose =
     \<lparr>rawSubjectCode = Some '' cs  101 '', rawSubjectName = Some ''Intro'',
      rawLecUnits = None, rawLabUnits = None, rawUnits = None,
      rawYearLevel = None, rawSemester = None\<rparr>"

definition sampleGroq :: "uploaded_file \<Rightarrow> groq_outcome" where
  "sampleGroq f =
     (if path f = ''uploads/a'' then Threw ''Could not parse AI response as JSON''
      else Parsed (Some [rawLoose]))"

text \<open>A client-side error, among the status codes of HTTP, is a status from 400 to 499.\<close>

definition clientError :: "nat \<Rightarrow> bool" where
  "clientError status = (400 \<le> status \<and> status < 500)"

text \<open>What the route computes for the two sample files.\<close>

definition sampleResults :: "imageResult list" where
  "sampleResults =
     [fst (processImage sampleGroq 1 fileA), fst (processImage sampleGroq 2 fileB)]"

definition sampleReport :: scan_report where
  "sampleReport =
     \<lparr>reportSuccess = success (validateOverallExtraction [canonicalCS101] sampleResults),
      reportQuality = quality (validateOverallExtraction [canonicalCS101] sampleResults),
      dataSubjects = [canonicalCS101],
      totalSubjectsFound = 1,
      imagesProcessed = 2,
      reportValidation = validateOverallExtraction [canonicalCS101] sampleResults,
      reportImageResults = sampleResults,
      image1Good = imageGood sampleResults 0,
      image2Good = imageGood sampleResults 1\<rparr>"

section \<open>Validation of one image: the last assignment decides\<close>

lemma countByYear_unknown:
  "countByYear m (replicate k unknownSubject) ''1st Year'' = m ''1st Year''"
  "countByYear m (replicate k unknownSubject) ''2nd Year'' = m ''2nd Year''"
  "countByYear m (replicate k unknownSubject) ''3rd Year'' = m ''3rd Year''"
  "countByYear m (replicate k unknownSubject) ''4th Year'' = m ''4th Year''"
  by (induction k arbitrary: m) (simp_all add: unknownSubject_def)

text \<open>
  C6. Whatever the subjects and the section, the validation returned has
  \<open>isGood\<close> exactly when its list of issues is empty. The last assignment changes
  \<open>isGood\<close> only: issues and warnings are those gathered before it, so a warning
  never makes the result bad, any issue does, and the tentative value set by the check
  of the range is overridden.
\<close>

theorem validateExtractionQuality_isGood_iff_no_issues:
  "isGood (validateExtractionQuality subjs sectionId) =
     (length (validation.issues (validateExtractionQuality subjs sectionId)) = 0)
   \<and> validation.issues (validateExtractionQuality subjs sectionId) =
       validation.issues (validateBeforeFinal subjs sectionId)
   \<and> validation.warnings (validateExtractionQuality subjs sectionId) =
       validation.warnings (validateBeforeFinal subjs sectionId)"
  by (simp add: validateExtractionQuality_def Let_def)

text \<open>
  Twenty-seven subjects of an unknown year as section 1: the range check sets the
  tentative \<open>isGood\<close>, the year checks add issues, and the result is not good.
\<close>

theorem validateExtractionQuality_isGood_witness:
  "isGood (validateBeforeFinal (replicate 27 unknownSubject) 1)
   \<and> \<not> isGood (validateExtractionQuality (replicate 27 unknownSubject) 1)"
  using validateExtractionQuality_isGood_iff_no_issues [of "replicate 27 unknownSubject" 1]
  by (simp add: validateBeforeFinal_def Let_def countCheck_def expectedCounts_def
      image1Checks_def pushIssue_def yearBelow_def countByYear_unknown)

section \<open>Validation of one image: sections other than 1 and 2\<close>

text \<open>
  C10. For a section other than 1 and 2 no check is made: whatever the subjects (the
  empty list too), the validation is good, with no issue and no warning.
\<close>

theorem validateExtractionQuality_other_section:
  "sectionId \<noteq> 1 \<Longrightarrow> sectionId \<noteq> 2 \<Longrightarrow>
   validateExtractionQuality subjs sectionId =
     \<lparr>isGood = True, issues = [], warnings = [],
      subjectCount = length subjs, missingCourses = Some []\<rparr>"
  by (simp add: validateExtractionQuality_def validateBeforeFinal_def Let_def
      countCheck_def expectedCounts_def)

theorem validateExtractionQuality_other_section_witness:
  "validateExtractionQuality [] 3 =
     \<lparr>isGood = True, issues = [], warnings = [],
      subjectCount = 0, missingCourses = Some []\<rparr>"
  using validateExtractionQuality_other_section [of 3 "[]"] by simp

section \<open>Validation of the whole scan: which stage writes which field\<close>

lemma addIssue_simps:
  "success (addIssue msg v) = success v"
  "quality (addIssue msg v) = quality v"
  "warnings (addIssue msg v) = warnings v"
  "byYear (addIssue msg v) = byYear v"
  "missingCourses (addIssue msg v) = missingCourses v"
  "issues (addIssue msg v) = issues v @ [msg]"
  by (simp_all add: addIssue_def)

lemma addWarning_simps:
  "success (addWarning msg v) = success v"
  "quality (addWarning msg v) = quality v"
  "warnings (addWarning msg v) = warnings v @ [msg]"
  "byYear (addWarning msg v) = byYear v"
  "missingCourses (addWarning msg v) = missingCourses v"
  "issues (addWarning msg v) = issues v"
  by (simp_all add: addWarning_def)

lemma yearsCheck_keeps:
  "success (yearsCheck ys v) = success v"
  "quality (yearsCheck ys v) = quality v"
  "warnings (yearsCheck ys v) = warnings v"
  "byYear (yearsCheck ys v) = byYear v"
  "missingCourses (yearsCheck ys v) = missingCourses v"
  by (induction ys arbitrary: v) (simp_all add: addIssue_simps)

lemma yearsCheck_issues:
  "issues (yearsCheck ys v) =
     issues v @ map (\<lambda>y. y @ '' completely missing'') (filter (yearAbsent (byYear v)) ys)"
  by (induction ys arbitrary: v) (simp_all add: addIssue_simps)

lemma summerCheck_keeps:
  "success (summerCheck xs irs v) = success v"
  "quality (summerCheck xs irs v) = quality v"
  "warnings (summerCheck xs irs v) = warnings v"
  "byYear (summerCheck xs irs v) = byYear v"
  by (simp_all add: summerCheck_def Let_def addIssue_simps)

lemma summerCheck_issues:
  "issues (summerCheck xs irs v) =
     issues v @ (if \<not> list_ex (\<lambda>s. subjectCode s = ''CS 122'') xs \<and> length irs = 2
                 then [''Summer semester missing (CS 122)''] else [])"
  by (simp add: summerCheck_def Let_def addIssue_simps)

lemma totalCountCheck_byYear: "byYear (totalCountCheck xs irs v) = byYear v"
  by (simp add: totalCountCheck_def Let_def addIssue_simps addWarning_simps)

lemma counted_simps:
  "success (countedOverall xs) = False"
  "issues (countedOverall xs) = []"
  "warnings (countedOverall xs) = []"
  "quality (countedOverall xs) = ''poor''"
  "missingCourses (countedOverall xs) = []"
  "byYear (countedOverall xs) = countByYear Map.empty xs"
  by (simp_all add: countedOverall_def Let_def)

lemma overall_success:
  "success (validateOverallExtraction xs irs) = success (totalCountCheck xs irs (countedOverall xs))"
  by (simp add: validateOverallExtraction_def overallBeforeMissing_def Let_def
      summerCheck_keeps yearsCheck_keeps)

lemma overall_quality:
  "quality (validateOverallExtraction xs irs) = quality (totalCountCheck xs irs (countedOverall xs))"
  by (simp add: validateOverallExtraction_def overallBeforeMissing_def Let_def
      summerCheck_keeps yearsCheck_keeps)

lemma overall_warnings:
  "warnings (validateOverallExtraction xs irs) =
     warnings (totalCountCheck xs irs (countedOverall xs))"
  by (simp add: validateOverallExtraction_def overallBeforeMissing_def Let_def
      summerCheck_keeps yearsCheck_keeps)

lemma overall_byYear:
  "byYear (validateOverallExtraction xs irs) = countByYear Map.empty xs"
  by (simp add: validateOverallExtraction_def overallBeforeMissing_def Let_def
      summerCheck_keeps yearsCheck_keeps totalCountCheck_byYear counted_simps)

lemma overall_issues:
  "issues (validateOverallExtraction xs irs) =
     issues (totalCountCheck xs irs (countedOverall xs))
     @ (if length irs = 2
        then map (\<lambda>y. y @ '' completely missing'')
               (filter (yearAbsent (countByYear Map.empty xs)) expectedYears)
        else [])
     @ (if \<not> list_ex (\<lambda>s. subjectCode s = ''CS 122'') xs \<and> length irs = 2
        then [''Summer semester missing (CS 122)''] else [])"
  by (simp add: validateOverallExtraction_def overallBeforeMissing_def Let_def
      summerCheck_issues yearsCheck_keeps yearsCheck_issues totalCountCheck_byYear counted_simps)

lemma overall_missing:
  "missingCourses (validateOverallExtraction xs irs) = findMissing xs"
  by (simp add: validateOverallExtraction_def)

lemma passed_samples: "passed goodImage" "\<not> passed badImage"
  by (simp_all add: passed_def goodImage_def badImage_def)

lemma catalog_length: "length CURRICULUM_REFERENCE = 54"
  by (simp add: CURRICULUM_REFERENCE_def)

lemma firstSubjects_length: "n \<le> 54 \<Longrightarrow> length (firstSubjects n) = n"
  by (simp add: firstSubjects_def catalogSubjects_def catalog_length)

lemma catalogSubjects_keys:
  "map dedupKey catalogSubjects =
  [''cs101'', ''cs102'', ''math101'', ''phys1'', ''gec11'', ''pathfit1'',
   ''nstp11'', ''cs103'', ''cs107'', ''math102'', ''gec12'', ''gec13'',
   ''pathfit2'', ''nstp2'', ''cs104'', ''cs106'', ''cs108'', ''cs109'',
   ''mathelec101'', ''gec14'', ''pathfit3'', ''cs105'', ''cs110'', ''cs111'',
   ''cs112'', ''cs113'', ''mathelec102'', ''gec15'', ''pathfit4'', ''cs114'',
   ''cs115'', ''cs116'', ''cs117'', ''cselec1'', ''gec16'', ''cs118'',
   ''cs119'', ''cs120'', ''cs121'', ''cselec2'', ''gec17'', ''gec18'',
   ''cs122'', ''cs123'', ''cs124'', ''cselec3'', ''gec20'', ''gecelec1'',
   ''gecelec22'', ''cs125'', ''cs126'', ''gec19'', ''gecelec2'', ''gecelec21'']"
  by code_simp

lemma filterSeen_distinct:
  "distinct (map dedupKey xs) \<Longrightarrow> dedupKey ` set xs \<inter> seen = {} \<Longrightarrow> filterSeen seen xs = xs"
  by (induction xs arbitrary: seen) (auto simp add: Let_def)

text \<open>The first \<open>n\<close> subjects of the reference are left as they are by the deduplication.\<close>

lemma firstSubjects_unique: "uniqueSubjects (firstSubjects n) = firstSubjects n"
proof -
  have "distinct (map dedupKey catalogSubjects)"
    unfolding catalogSubjects_keys by simp
  then have "distinct (take n (map dedupKey catalogSubjects))"
    by (rule distinct_take)
  then have "distinct (map dedupKey (firstSubjects n))"
    by (simp add: firstSubjects_def take_map)
  then show ?thesis
    by (simp add: uniqueSubjects_def filterSeen_distinct)
qed

section \<open>The tiers of the whole scan\<close>

text \<open>
  C3. With fewer than 45 subjects: when exactly one image was submitted and it passed,
  the tier is moderate, the scan succeeds, the only warning notes the partial scan and
  there is no issue; otherwise the tier is poor, the scan does not succeed, there is no
  warning and the first issue states the count out of 54.
\<close>

theorem validateOverallExtraction_poor_tier:
  assumes "length xs < 45"
  shows "(if length irs = 1 \<and> passed (irs ! 0) then
            quality (validateOverallExtraction xs irs) = ''moderate''
            \<and> success (validateOverallExtraction xs irs)
            \<and> warnings (validateOverallExtraction xs irs) =
                [''Partial scan: '' @ string_of_nat (length xs) @
                 '' subjects extracted from 1 image'']
            \<and> issues (validateOverallExtraction xs irs) = []
          else
            quality (validateOverallExtraction xs irs) = ''poor''
            \<and> \<not> success (validateOverallExtraction xs irs)
            \<and> hd (issues (validateOverallExtraction xs irs)) =
                ''Very poor extraction: only '' @ string_of_nat (length xs) @ ''/54 subjects''
            \<and> warnings (validateOverallExtraction xs irs) = [])"
  using assms
  by (simp add: overall_success overall_quality overall_warnings overall_issues
      totalCountCheck_def Let_def imageGood_def addIssue_simps addWarning_simps counted_simps)

theorem validateOverallExtraction_poor_tier_witness:
  "length (firstSubjects 20) < 45
   \<and> quality (validateOverallExtraction (firstSubjects 20) [goodImage]) = ''moderate''
   \<and> success (validateOverallExtraction (firstSubjects 20) [goodImage])
   \<and> warnings (validateOverallExtraction (firstSubjects 20) [goodImage]) =
        [''Partial scan: 20 subjects extracted from 1 image'']
   \<and> issues (validateOverallExtraction (firstSubjects 20) [goodImage]) = []
   \<and> quality (validateOverallExtraction (firstSubjects 20) [badImage]) = ''poor''
   \<and> \<not> success (validateOverallExtraction (firstSubjects 20) [badImage])
   \<and> hd (issues (validateOverallExtraction (firstSubjects 20) [badImage])) =
        ''Very poor extraction: only 20/54 subjects''"
  using validateOverallExtraction_poor_tier [of "firstSubjects 20" "[goodImage]"]
        validateOverallExtraction_poor_tier [of "firstSubjects 20" "[badImage]"]
  by (simp add: firstSubjects_length imageGood_def passed_samples string_of_nat.simps
      digitChar_def)

section \<open>The checks made for two images only\<close>

lemma totalCountCheck_issue_heads:
  "m \<in> set (issues (totalCountCheck xs irs (countedOverall xs))) \<Longrightarrow>
   hd m = CHR ''O'' \<or> hd m = CHR ''V''"
  by (auto simp add: totalCountCheck_def Let_def addIssue_simps addWarning_simps counted_simps
      split: if_splits)

lemma countByYear_lookup:
  "countByYear m xs y =
     (if filter (\<lambda>s. yearLevel s = y) xs = [] then m y
      else Some ((case m y of None \<Rightarrow> 0 | Some n \<Rightarrow> n) +
                 length (filter (\<lambda>s. yearLevel s = y) xs)))"
  by (induction xs arbitrary: m) (auto split: option.splits)

lemma yearAbsent_iff:
  "yearAbsent (countByYear Map.empty xs) y \<longleftrightarrow> \<not> list_ex (\<lambda>s. yearLevel s = y) xs"
  by (auto simp add: yearAbsent_def countByYear_lookup list_ex_iff filter_empty_conv)

lemma count_list_map_suffix:
  "count_list (map (\<lambda>y. y @ sfx) ys) (y @ sfx) = count_list ys y"
  by (induction ys) simp_all

lemma count_list_filter:
  "count_list (filter P ys) y = (if P y then count_list ys y else 0)"
  by (induction ys) auto

text \<open>
  C7. For each of the four expected years, the issue "year completely missing" stands
  in the issues once when exactly two images were submitted and the count of the year
  is zero or absent (no subject has that year level), and not at all otherwise. The
  issue of the missing Summer semester stands there once when exactly two images were
  submitted and no subject has the code CS 122, and not at all otherwise.
\<close>

theorem validateOverallExtraction_two_image_checks:
  "(\<forall>year \<in> set expectedYears.
      count_list (issues (validateOverallExtraction xs irs)) (year @ '' completely missing'') =
        (if length irs = 2 \<and> yearAbsent (byYear (validateOverallExtraction xs irs)) year
         then 1 else 0)
      \<and> (yearAbsent (byYear (validateOverallExtraction xs irs)) year \<longleftrightarrow>
           \<not> list_ex (\<lambda>s. yearLevel s = year) xs))
   \<and> count_list (issues (validateOverallExtraction xs irs)) ''Summer semester missing (CS 122)'' =
        (if length irs = 2 \<and> \<not> list_ex (\<lambda>s. subjectCode s = ''CS 122'') xs then 1 else 0)"
proof -
  let ?A = "issues (totalCountCheck xs irs (countedOverall xs))"
  let ?P = "yearAbsent (countByYear Map.empty xs)"
  let ?B = "map (\<lambda>y. y @ '' completely missing'') (filter ?P expectedYears)"
  have A: "count_list ?A m = 0" if "hd m \<noteq> CHR ''O''" "hd m \<noteq> CHR ''V''" for m
    using that totalCountCheck_issue_heads [of m xs irs] by (auto simp add: count_list_0_iff)
  have A_year: "count_list ?A (year @ '' completely missing'') = 0"
    if "year \<in> set expectedYears" for year
    using that by (intro A) (auto simp add: expectedYears_def)
  have A_summer: "count_list ?A ''Summer semester missing (CS 122)'' = 0"
    by (intro A) simp_all
  have B_year: "count_list ?B (year @ '' completely missing'') = (if ?P year then 1 else 0)"
    if "year \<in> set expectedYears" for year
  proof -
    have "count_list ?B (year @ '' completely missing'') = count_list (filter ?P expectedYears) year"
      by (simp add: count_list_map_suffix)
    also have "\<dots> = (if ?P year then count_list expectedYears year else 0)"
      by (simp add: count_list_filter)
    also have "count_list expectedYears year = 1"
      using that by (auto simp add: expectedYears_def)
    finally show ?thesis by simp
  qed
  have B_summer: "count_list ?B ''Summer semester missing (CS 122)'' = 0"
    by (auto simp add: count_list_0_iff)
  have S_year: "count_list [''Summer semester missing (CS 122)''] (year @ '' completely missing'') = 0"
    if "year \<in> set expectedYears" for year
    using that by (auto simp add: expectedYears_def)
  have years: "count_list (issues (validateOverallExtraction xs irs)) (year @ '' completely missing'') =
        (if length irs = 2 \<and> ?P year then 1 else 0)"
    if "year \<in> set expectedYears" for year
    using A_year [OF that] B_year [OF that] S_year [OF that]
    by (simp add: overall_issues)
  have summer: "count_list (issues (validateOverallExtraction xs irs)) ''Summer semester missing (CS 122)'' =
        (if length irs = 2 \<and> \<not> list_ex (\<lambda>s. subjectCode s = ''CS 122'') xs then 1 else 0)"
    using A_summer B_summer by (simp add: overall_issues)
  show ?thesis
    using years summer by (simp add: overall_byYear yearAbsent_iff)
qed

text \<open>
  One subject of an unknown year: submitted as one image, no issue about the fourth year
  or the Summer semester; submitted as two images, one of each.
\<close>

theorem validateOverallExtraction_two_image_checks_witness:
  "count_list (issues (validateOverallExtraction [unknownSubject] [goodImage]))
     ''4th Year completely missing'' = 0
   \<and> count_list (issues (validateOverallExtraction [unknownSubject] [goodImage, badImage]))
     ''4th Year completely missing'' = 1
   \<and> count_list (issues (validateOverallExtraction [unknownSubject] [goodImage]))
     ''Summer semester missing (CS 122)'' = 0
   \<and> count_list (issues (validateOverallExtraction [unknownSubject] [goodImage, badImage]))
     ''Summer semester missing (CS 122)'' = 1"
  using validateOverallExtraction_two_image_checks [of "[unknownSubject]" "[goodImage]"]
        validateOverallExtraction_two_image_checks [of "[unknownSubject]" "[goodImage, badImage]"]
  by (simp add: expectedYears_def unknownSubject_def)

section \<open>Hydration\<close>

lemma isWhitespace_toUpperChar: "isWhitespace (toUpperChar c) = isWhitespace c"
  by (simp add: toUpperChar_def isWhitespace_def)

lemma filter_dropWhile: "filter (\<lambda>c. \<not> P c) (dropWhile P s) = filter (\<lambda>c. \<not> P c) s"
  by (induction s) simp_all

text \<open>Trimming before the normalisation changes nothing: it removes white space only.\<close>

lemma normalizeCode_trim: "removeWhitespace (toUpperCase (trim s)) = normalizeCode s"
proof -
  have "removeWhitespace (toUpperCase t) = toUpperCase (removeWhitespace t)" for t
    by (simp add: removeWhitespace_def toUpperCase_def filter_map comp_def
        isWhitespace_toUpperChar)
  moreover have "removeWhitespace (trim s) = removeWhitespace s"
    by (simp add: removeWhitespace_def trim_def filter_dropWhile flip: rev_filter)
  ultimately show ?thesis by (simp add: normalizeCode_def)
qed

lemma catalog_keys_normalized:
  "map (normalizeCode \<circ> fst) CURRICULUM_REFERENCE =
  [''CS101'', ''CS102'', ''MATH101'', ''PHYS1'', ''GEC11'', ''PATHFIT1'',
   ''NSTP11'', ''CS103'', ''CS107'', ''MATH102'', ''GEC12'', ''GEC13'',
   ''PATHFIT2'', ''NSTP2'', ''CS104'', ''CS106'', ''CS108'', ''CS109'',
   ''MATHELEC101'', ''GEC14'', ''PATHFIT3'', ''CS105'', ''CS110'', ''CS111'',
   ''CS112'', ''CS113'', ''MATHELEC102'', ''GEC15'', ''PATHFIT4'', ''CS114'',
   ''CS115'', ''CS116'', ''CS117'', ''CSELEC1'', ''GEC16'', ''CS118'',
   ''CS119'', ''CS120'', ''CS121'', ''CSELEC2'', ''GEC17'', ''GEC18'',
   ''CS122'', ''CS123'', ''CS124'', ''CSELEC3'', ''GEC20'', ''GECELEC1'',
   ''GECELEC22'', ''CS125'', ''CS126'', ''GEC19'', ''GECELEC2'', ''GECELEC21'']"
  by code_simp

text \<open>No two keys of the reference have the same normalised form.\<close>

lemma catalog_distinct: "distinct (map (normalizeCode \<circ> fst) CURRICULUM_REFERENCE)"
  unfolding catalog_keys_normalized by simp

lemma fold_lookup_other:
  "k \<notin> (f \<circ> fst) ` set xs \<Longrightarrow>
   foldl (\<lambda>m (key, r). m(f key \<mapsto> (key, r))) m xs k = m k"
  by (induction xs arbitrary: m) (auto split: prod.splits)

lemma fold_lookup_member:
  "distinct (map (f \<circ> fst) xs) \<Longrightarrow> (key, r) \<in> set xs \<Longrightarrow>
   foldl (\<lambda>m (key, r). m(f key \<mapsto> (key, r))) m xs (f key) = Some (key, r)"
proof (induction xs arbitrary: m)
  case Nil
  then show ?case by simp
next
  case (Cons x xs)
  show ?case
  proof (cases "(key, r) \<in> set xs")
    case True
    with Cons show ?thesis by simp
  next
    case False
    with Cons.prems have x: "x = (key, r)" by simp
    from Cons.prems have "(f \<circ> fst) x \<notin> set (map (f \<circ> fst) xs)" by simp
    with x have "f key \<notin> (f \<circ> fst) ` set xs" by simp
    then have "foldl (\<lambda>m (key, r). m(f key \<mapsto> (key, r))) (m(f key \<mapsto> (key, r))) xs (f key) =
               (m(f key \<mapsto> (key, r))) (f key)"
      by (rule fold_lookup_other)
    then have "foldl (\<lambda>m (key, r). m(f key \<mapsto> (key, r))) m ((key, r) # xs) (f key) =
               Some (key, r)"
      by (simp del: fun_upd_apply) simp
    with x show ?thesis by (simp only:)
  qed
qed

lemma refLookup_member:
  "(key, r) \<in> set CURRICULUM_REFERENCE \<Longrightarrow> refLookup (normalizeCode key) = Some (key, r)"
  unfolding refLookup_def by (rule fold_lookup_member [OF catalog_distinct])

lemma refLookup_None:
  "k \<notin> normalizeCode ` fst ` set CURRICULUM_REFERENCE \<Longrightarrow> refLookup k = None"
  unfolding refLookup_def by (simp add: fold_lookup_other image_comp)

lemma hydrateSubject_match:
  "(key, r) \<in> set CURRICULUM_REFERENCE \<Longrightarrow>
   normalizeCode (subjectCode s) = normalizeCode key \<Longrightarrow>
   hydrateSubject s =
     \<lparr>subjectCode = key, subjectName = name r,
      lecUnits = reference.lecUnits r, labUnits = reference.labUnits r,
      units = reference.units r, yearLevel = reference.yearLevel r,
      semester = reference.semester r\<rparr>"
  by (simp add: hydrateSubject_def Let_def normalizeCode_trim refLookup_member)

lemma hydrateSubject_no_match:
  "normalizeCode (subjectCode s) \<notin> normalizeCode ` fst ` set CURRICULUM_REFERENCE \<Longrightarrow>
   hydrateSubject s = s"
  by (simp add: hydrateSubject_def Let_def normalizeCode_trim refLookup_None)

text \<open>
  C4. Hydration returns one subject for each subject given, in the same order. A
  subject whose normalised code (upper case, all white space removed) is the normalised
  form of a key of the reference becomes the entry of that key: the code is the key as
  the reference spells it, and name, lecture, laboratory and total units, year level
  and semester are the entry's. A subject whose normalised code matches no key is
  returned as it is. The function is total: nothing is dropped and nothing fails.
\<close>

theorem hydrateSubjectsFromReference_total_and_canonical:
  "length (hydrateSubjectsFromReference xs) = length xs
   \<and> (\<forall>i < length xs.
        (\<forall>key r. (key, r) \<in> set CURRICULUM_REFERENCE
                  \<and> normalizeCode (subjectCode (xs ! i)) = normalizeCode key \<longrightarrow>
           hydrateSubjectsFromReference xs ! i =
             \<lparr>subjectCode = key, subjectName = name r,
              lecUnits = reference.lecUnits r, labUnits = reference.labUnits r,
              units = reference.units r, yearLevel = reference.yearLevel r,
              semester = reference.semester r\<rparr>)
        \<and> (normalizeCode (subjectCode (xs ! i))
              \<notin> normalizeCode ` fst ` set CURRICULUM_REFERENCE \<longrightarrow>
           hydrateSubjectsFromReference xs ! i = xs ! i))"
  by (auto simp add: hydrateSubjectsFromReference_def hydrateSubject_match
      hydrateSubject_no_match)

lemma sample_codes_normalized:
  "normalizeCode (subjectCode looseCS101) = normalizeCode ''CS 101''"
  "normalizeCode (subjectCode unknownSubject) = ''X''"
  by code_simp+

lemma unknown_not_in_catalog:
  "normalizeCode (subjectCode unknownSubject) \<notin> normalizeCode ` fst ` set CURRICULUM_REFERENCE"
proof -
  have "normalizeCode ` fst ` set CURRICULUM_REFERENCE =
        set (map (normalizeCode \<circ> fst) CURRICULUM_REFERENCE)"
    by (simp add: image_comp)
  then show ?thesis
    unfolding catalog_keys_normalized sample_codes_normalized by simp
qed

lemma cs101_in_catalog:
  "(''CS 101'', mkRef ''Introduction to Computing'' 3 0 3 ''1st Year'' ''1st Semester'')
     \<in> set CURRICULUM_REFERENCE"
  by (simp add: CURRICULUM_REFERENCE_def)

theorem hydrateSubjectsFromReference_witness:
  "hydrateSubjectsFromReference [looseCS101, unknownSubject] = [canonicalCS101, unknownSubject]"
proof -
  let ?xs = "[looseCS101, unknownSubject]"
  note h = hydrateSubjectsFromReference_total_and_canonical [of ?xs]
  from h have len: "length (hydrateSubjectsFromReference ?xs) = 2" by simp
  from h have "(''CS 101'', mkRef ''Introduction to Computing'' 3 0 3 ''1st Year'' ''1st Semester'')
                  \<in> set CURRICULUM_REFERENCE
               \<and> normalizeCode (subjectCode (?xs ! 0)) = normalizeCode ''CS 101'' \<longrightarrow>
               hydrateSubjectsFromReference ?xs ! 0 = canonicalCS101"
    by (auto simp add: canonicalCS101_def mkRef_def)
  then have first: "hydrateSubjectsFromReference ?xs ! 0 = canonicalCS101"
    using cs101_in_catalog sample_codes_normalized(1) by simp
  from h have "normalizeCode (subjectCode (?xs ! 1))
                 \<notin> normalizeCode ` fst ` set CURRICULUM_REFERENCE \<longrightarrow>
               hydrateSubjectsFromReference ?xs ! 1 = ?xs ! 1"
    by auto
  then have second: "hydrateSubjectsFromReference ?xs ! 1 = unknownSubject"
    using unknown_not_in_catalog by simp
  show ?thesis
    using len first second
    by (simp add: list_eq_iff_nth_eq less_Suc_eq numeral_2_eq_2)
qed

section \<open>The loop over the images\<close>

lemma processImages_eq:
  "processImages g i files (irs, pushed) =
     (irs @ map (\<lambda>(k, f). fst (processImage g (int k + 1) f)) (enumerate i files),
      pushed @ concat (map (\<lambda>(k, f). snd (processImage g (int k + 1) f)) (enumerate i files)))"
  by (induction files arbitrary: i irs pushed) (simp_all add: Let_def split: prod.splits)

lemma processImage_pushed: "snd (processImage g n f) = subjects (fst (processImage g n f))"
  by (simp add: processImage_def Let_def split: groq_outcome.splits option.splits)

lemma processImage_hydrated: "set (snd (processImage g n f)) \<subseteq> range hydrateSubject"
  by (auto simp add: processImage_def Let_def hydrateSubjectsFromReference_def
      split: groq_outcome.splits option.splits)

lemma processImage_Threw:
  "g f = Threw msg \<Longrightarrow>
   processImage g n f =
     (\<lparr>imageNumber = n, originalFile = originalname f, subjects = [],
       validation = Some \<lparr>isGood = False, issues = [msg], warnings = [],
                          subjectCount = 0, missingCourses = None\<rparr>\<rparr>, [])"
  by (simp add: processImage_def Let_def)

lemma processImages_hydrated:
  "set (snd (processImages g i files ([], []))) \<subseteq> range hydrateSubject"
proof -
  have "set (snd (processImage g n f)) \<subseteq> range hydrateSubject" for n f
    by (rule processImage_hydrated)
  then show ?thesis
    by (auto simp add: processImages_eq)
qed

lemma filterSeen_subset: "set (filterSeen seen xs) \<subseteq> set xs"
  by (induction xs arbitrary: seen) (auto simp add: Let_def)

lemma filterSeen_length: "length (filterSeen seen xs) \<le> length xs"
  by (induction xs arbitrary: seen) (auto simp add: Let_def le_SucI)

lemma scanCurriculum_report:
  assumes "processImages g 0 files ([], []) = (irs, pushed)" and "files \<noteq> []"
  shows "scanCurriculum (Some files) True g =
           Report \<lparr>reportSuccess = success (validateOverallExtraction (uniqueSubjects pushed) irs),
                   reportQuality = quality (validateOverallExtraction (uniqueSubjects pushed) irs),
                   dataSubjects = uniqueSubjects pushed,
                   totalSubjectsFound = length (uniqueSubjects pushed),
                   imagesProcessed = length files,
                   reportValidation = validateOverallExtraction (uniqueSubjects pushed) irs,
                   reportImageResults = irs,
                   image1Good = imageGood irs 0,
                   image2Good = imageGood irs 1\<rparr>"
  using assms by (simp add: scanCurriculum_def Let_def)

text \<open>In a report of the route every subject is an output of the hydration.\<close>

lemma scanCurriculum_report_hydrated:
  assumes "scanCurriculum reqFiles apiKeySet g = Report r"
  shows "set (dataSubjects r) \<subseteq> range hydrateSubject
         \<and> reportValidation r =
             validateOverallExtraction (dataSubjects r) (reportImageResults r)"
proof -
  from assms obtain files where f: "reqFiles = Some files" "files \<noteq> []" "apiKeySet"
    by (auto simp add: scanCurriculum_def split: option.splits if_splits)
  obtain irs pushed where p: "processImages g 0 files ([], []) = (irs, pushed)"
    by (cases "processImages g 0 files ([], [])") auto
  with processImages_hydrated [of g 0 files] have "set pushed \<subseteq> range hydrateSubject"
    by simp
  with filterSeen_subset [of "{}" pushed]
  have "set (uniqueSubjects pushed) \<subseteq> range hydrateSubject"
    by (auto simp add: uniqueSubjects_def)
  moreover from assms f scanCurriculum_report [OF p f(2)]
  have "r = \<lparr>reportSuccess = success (validateOverallExtraction (uniqueSubjects pushed) irs),
             reportQuality = quality (validateOverallExtraction (uniqueSubjects pushed) irs),
             dataSubjects = uniqueSubjects pushed,
             totalSubjectsFound = length (uniqueSubjects pushed),
             imagesProcessed = length files,
             reportValidation = validateOverallExtraction (uniqueSubjects pushed) irs,
             reportImageResults = irs,
             image1Good = imageGood irs 0,
             image2Good = imageGood irs 1\<rparr>"
    by simp
  ultimately show ?thesis by simp
qed

lemma hydrate_looseCS101: "hydrateSubject looseCS101 = canonicalCS101"
  using hydrateSubject_match [OF cs101_in_catalog sample_codes_normalized(1)]
  by (simp add: canonicalCS101_def mkRef_def)

lemma clean_rawLoose: "cleanSubject 0 rawLoose = looseCS101"
  by (simp add: cleanSubject_def rawLoose_def looseCS101_def orElse_def parseIntOr0_def)

lemma processImage_fileB: "snd (processImage sampleGroq n fileB) = [canonicalCS101]"
  by (simp add: processImage_def sampleGroq_def fileB_def Let_def enumerate_simps
      clean_rawLoose hydrateSubjectsFromReference_def hydrate_looseCS101)

lemma processImage_fileA: "snd (processImage sampleGroq n fileA) = []"
  by (simp add: processImage_def sampleGroq_def fileA_def Let_def)

lemma sample_run:
  "processImages sampleGroq 0 [fileA, fileB] ([], []) = (sampleResults, [canonicalCS101])"
  by (simp add: processImages_eq enumerate_simps sampleResults_def
      processImage_fileA processImage_fileB)

lemma sample_unique: "uniqueSubjects [canonicalCS101] = [canonicalCS101]"
  by (simp add: uniqueSubjects_def Let_def)

lemma sample_report: "scanCurriculum (Some [fileA, fileB]) True sampleGroq = Report sampleReport"
  using scanCurriculum_report [OF sample_run]
  by (simp add: sample_unique sampleReport_def)

section \<open>The upload middleware\<close>

lemma fileFilter_cases:
  "fileFilter f = (if mimetype f \<in> {''image/jpeg'', ''image/png'', ''image/webp''} then Inr True
                   else Inl ''Only JPG, PNG, and WEBP images are allowed'')"
  by (simp add: fileFilter_def Let_def)

lemma uploadArray_accepts:
  "length sent \<le> n \<Longrightarrow> \<forall>f\<in>set sent. mimetype f \<in> {''image/jpeg'', ''image/png'', ''image/webp''} \<Longrightarrow>
   uploadArray n sent = Inr sent"
  by (induction sent arbitrary: n) (auto simp add: fileFilter_cases)

lemma uploadArray_Inr:
  "uploadArray n sent = Inr files \<Longrightarrow>
   files = sent \<and> length sent \<le> n
   \<and> (\<forall>f\<in>set sent. mimetype f \<in> {''image/jpeg'', ''image/png'', ''image/webp''})"
proof (induction sent arbitrary: n files)
  case Nil
  then show ?case by simp
next
  case (Cons f fs)
  from Cons.prems have n: "n \<noteq> 0" by (auto split: if_splits)
  from Cons.prems n have ok: "mimetype f \<in> {''image/jpeg'', ''image/png'', ''image/webp''}"
    by (auto simp add: fileFilter_cases split: if_splits)
  from Cons.prems n ok obtain acc where acc: "uploadArray (n - 1) fs = Inr acc" and files: "files = f # acc"
    by (auto simp add: fileFilter_cases split: sum.splits)
  from Cons.IH [OF acc] files ok n show ?case by auto
qed

lemma uploadArray_filter_error:
  "\<exists>f\<in>set (take n sent). mimetype f \<notin> {''image/jpeg'', ''image/png'', ''image/webp''} \<Longrightarrow>
   uploadArray n sent = Inl ''Only JPG, PNG, and WEBP images are allowed''"
proof (induction sent arbitrary: n)
  case Nil
  then show ?case by simp
next
  case (Cons f fs)
  from Cons.prems obtain m where n: "n = Suc m" by (cases n) auto
  show ?case
  proof (cases "mimetype f \<in> {''image/jpeg'', ''image/png'', ''image/webp''}")
    case True
    with Cons.prems n have "\<exists>f\<in>set (take m fs). mimetype f \<notin> {''image/jpeg'', ''image/png'', ''image/webp''}"
      by auto
    from Cons.IH [OF this] True n show ?thesis by (simp add: fileFilter_cases)
  next
    case False
    with n show ?thesis by (simp add: fileFilter_cases)
  qed
qed

lemma uploadArray_error:
  "\<exists>f\<in>set sent. mimetype f \<notin> {''image/jpeg'', ''image/png'', ''image/webp''} \<Longrightarrow>
   uploadArray n sent \<in> {Inl ''Only JPG, PNG, and WEBP images are allowed'', Inl ''Unexpected field''}"
proof (induction sent arbitrary: n)
  case Nil
  then show ?case by simp
next
  case (Cons f fs)
  show ?case
  proof (cases "n = 0 \<or> mimetype f \<notin> {''image/jpeg'', ''image/png'', ''image/webp''}")
    case True
    then show ?thesis by (auto simp add: fileFilter_cases)
  next
    case False
    with Cons.prems have "\<exists>f\<in>set fs. mimetype f \<notin> {''image/jpeg'', ''image/png'', ''image/webp''}"
      by auto
    from Cons.IH [OF this, of "n - 1"] False show ?thesis
      by (auto simp add: fileFilter_cases)
  qed
qed

lemma sample_mimetypes:
  "mimetype fileA = ''image/png''" "mimetype fileB = ''image/png''" "mimetype pdfFile = ''application/pdf''"
  by (simp_all add: fileA_def fileB_def pdfFile_def)

text \<open>
  A report of the route has one or two image results, and its fields are those of the
  validation of its own subjects and image results.
\<close>

lemma route_report:
  assumes "scanCurriculumRoute incoming apiKeySet g = Handled (Report r)"
  shows "(length (reportImageResults r) = 1 \<or> length (reportImageResults r) = 2)
         \<and> reportValidation r = validateOverallExtraction (dataSubjects r) (reportImageResults r)
         \<and> reportSuccess r = success (reportValidation r)
         \<and> reportQuality r = quality (reportValidation r)
         \<and> totalSubjectsFound r = length (dataSubjects r)"
proof -
  from assms obtain sent files where up: "uploadArray 2 sent = Inr files"
    and h: "scanCurriculum (Some files) apiKeySet g = Report r"
    by (auto simp add: scanCurriculumRoute_def scanCurriculum_def split: option.splits sum.splits)
  from h have f: "files \<noteq> []" "apiKeySet"
    by (auto simp add: scanCurriculum_def split: if_splits)
  from uploadArray_Inr [OF up] have len: "length files \<le> 2" by simp
  obtain irs pushed where p: "processImages g 0 files ([], []) = (irs, pushed)"
    by (cases "processImages g 0 files ([], [])") auto
  then have "irs = map (\<lambda>(k, f). fst (processImage g (int k + 1) f)) (enumerate 0 files)"
    by (simp add: processImages_eq)
  then have "length irs = length files" by simp
  moreover from f have "length files \<noteq> 0" by simp
  ultimately have n: "length irs = 1 \<or> length irs = 2"
    using len by arith
  from h f scanCurriculum_report [OF p f(1)]
  have "r = \<lparr>reportSuccess = success (validateOverallExtraction (uniqueSubjects pushed) irs),
             reportQuality = quality (validateOverallExtraction (uniqueSubjects pushed) irs),
             dataSubjects = uniqueSubjects pushed,
             totalSubjectsFound = length (uniqueSubjects pushed),
             imagesProcessed = length files,
             reportValidation = validateOverallExtraction (uniqueSubjects pushed) irs,
             reportImageResults = irs,
             image1Good = imageGood irs 0,
             image2Good = imageGood irs 1\<rparr>"
    by simp
  with n show ?thesis by simp
qed

lemma sample_route:
  "scanCurriculumRoute (Some [fileA, fileB]) True sampleGroq = Handled (Report sampleReport)"
  using uploadArray_accepts [of "[fileA, fileB]" 2]
  by (simp add: scanCurriculumRoute_def sample_report sample_mimetypes)

section \<open>The missing courses\<close>

lemma catalog_inj:
  assumes "(k1, r1) \<in> set CURRICULUM_REFERENCE" "(k2, r2) \<in> set CURRICULUM_REFERENCE"
    and "normalizeCode k1 = normalizeCode k2"
  shows "k1 = k2"
proof -
  from catalog_distinct have "inj_on (normalizeCode \<circ> fst) (set CURRICULUM_REFERENCE)"
    by (simp add: distinct_map)
  from inj_onD [OF this _ assms(1,2)] assms(3) show ?thesis by simp
qed

text \<open>
  After hydration, a code with the normalised form of a key of the reference is that
  key, letter for letter.
\<close>

lemma hydrated_code_exact:
  assumes "(key, r) \<in> set CURRICULUM_REFERENCE"
    and "normalizeCode (subjectCode (hydrateSubject s)) = normalizeCode key"
  shows "subjectCode (hydrateSubject s) = key"
proof (cases "normalizeCode (subjectCode s) \<in> normalizeCode ` fst ` set CURRICULUM_REFERENCE")
  case True
  then obtain key' r' where m: "(key', r') \<in> set CURRICULUM_REFERENCE"
    and k: "normalizeCode (subjectCode s) = normalizeCode key'"
    by auto
  from hydrateSubject_match [OF m k] have c: "subjectCode (hydrateSubject s) = key'" by simp
  with assms(2) have "normalizeCode key' = normalizeCode key" by simp
  from catalog_inj [OF m assms(1) this] c show ?thesis by simp
next
  case False
  from hydrateSubject_no_match [OF this] assms(2)
  have "normalizeCode (subjectCode s) = normalizeCode key" by simp
  with assms(1)
  have "normalizeCode (subjectCode s) \<in> normalizeCode ` fst ` set CURRICULUM_REFERENCE"
    by force
  with False show ?thesis by simp
qed

lemma findMissing_normalized:
  assumes hyd: "set xs \<subseteq> range hydrateSubject"
  shows "findMissing xs =
           filter (\<lambda>code. normalizeCode code \<notin> normalizeCode ` subjectCode ` set xs)
             (map fst CURRICULUM_REFERENCE)"
proof -
  have "filter (\<lambda>code. code \<notin> subjectCode ` set xs) (map fst CURRICULUM_REFERENCE) =
        filter (\<lambda>code. normalizeCode code \<notin> normalizeCode ` subjectCode ` set xs)
          (map fst CURRICULUM_REFERENCE)"
  proof (rule filter_cong [OF refl])
    fix code assume "code \<in> set (map fst CURRICULUM_REFERENCE)"
    then obtain r where m: "(code, r) \<in> set CURRICULUM_REFERENCE" by auto
    show "(code \<notin> subjectCode ` set xs) =
          (normalizeCode code \<notin> normalizeCode ` subjectCode ` set xs)"
    proof
      assume notin: "code \<notin> subjectCode ` set xs"
      show "normalizeCode code \<notin> normalizeCode ` subjectCode ` set xs"
      proof
        assume "normalizeCode code \<in> normalizeCode ` subjectCode ` set xs"
        then obtain s where s: "s \<in> set xs"
          and e: "normalizeCode (subjectCode s) = normalizeCode code"
          by auto
        from s hyd obtain s0 where "s = hydrateSubject s0" by auto
        with hydrated_code_exact [OF m, of s0] e have "subjectCode s = code" by simp
        with s notin show False by auto
      qed
    next
      assume "normalizeCode code \<notin> normalizeCode ` subjectCode ` set xs"
      then show "code \<notin> subjectCode ` set xs" by auto
    qed
  qed
  then show ?thesis by (simp add: findMissing_def Let_def)
qed

text \<open>
  C1. The subjects given to the validation of the whole scan are outputs of the
  hydration: the function is called once, by the route, on the deduplicated hydrated
  subjects. For every such list of subjects and every list of image results,
  \<open>missingCourses\<close> is the list of the keys of the reference, in its order, whose
  normalised form is not the normalised form of the code of a subject; so it is in
  every report of the route. The function finds it by comparing the codes letter for
  letter, assigns it last, and the value does not depend on the image results: the
  partial value of the Summer check is overwritten.
\<close>

theorem validateOverallExtraction_missingCourses:
  "(set xs \<subseteq> range hydrateSubject \<longrightarrow>
        missingCourses (validateOverallExtraction xs irs) =
          filter (\<lambda>code. normalizeCode code \<notin> normalizeCode ` subjectCode ` set xs)
            (map fst CURRICULUM_REFERENCE))
   \<and> missingCourses (validateOverallExtraction xs irs) =
       filter (\<lambda>code. code \<notin> subjectCode ` set xs) (map fst CURRICULUM_REFERENCE)
   \<and> (scanCurriculum reqFiles apiKeySet g = Report r \<longrightarrow>
        missingCourses (reportValidation r) =
          filter (\<lambda>code. normalizeCode code \<notin> normalizeCode ` subjectCode ` set (dataSubjects r))
            (map fst CURRICULUM_REFERENCE))
   \<and> (scanCurriculumRoute incoming apiKeySet g = Handled (Report r) \<longrightarrow>
        missingCourses (reportValidation r) =
          filter (\<lambda>code. normalizeCode code \<notin> normalizeCode ` subjectCode ` set (dataSubjects r))
            (map fst CURRICULUM_REFERENCE))"
proof -
  have exact: "missingCourses (validateOverallExtraction xs irs) =
     filter (\<lambda>code. code \<notin> subjectCode ` set xs) (map fst CURRICULUM_REFERENCE)"
    by (simp add: overall_missing findMissing_def Let_def)
  have normalized: "missingCourses (validateOverallExtraction xs irs) =
          filter (\<lambda>code. normalizeCode code \<notin> normalizeCode ` subjectCode ` set xs)
            (map fst CURRICULUM_REFERENCE)"
    if "set xs \<subseteq> range hydrateSubject"
    using that by (simp add: overall_missing findMissing_normalized)
  have route: "missingCourses (reportValidation r) =
          filter (\<lambda>code. normalizeCode code \<notin> normalizeCode ` subjectCode ` set (dataSubjects r))
            (map fst CURRICULUM_REFERENCE)"
    if "scanCurriculum reqFiles apiKeySet g = Report r"
    for reqFiles
    using scanCurriculum_report_hydrated [OF that]
    by (simp add: overall_missing findMissing_normalized)
  have whole: "missingCourses (reportValidation r) =
          filter (\<lambda>code. normalizeCode code \<notin> normalizeCode ` subjectCode ` set (dataSubjects r))
            (map fst CURRICULUM_REFERENCE)"
    if "scanCurriculumRoute incoming apiKeySet g = Handled (Report r)"
  proof -
    from that obtain files where "scanCurriculum files apiKeySet g = Report r"
      by (auto simp add: scanCurriculumRoute_def split: option.splits sum.splits)
    then show ?thesis by (rule route)
  qed
  from exact normalized route [of reqFiles] whole show ?thesis by blast
qed

text \<open>
  The subject CS 101 alone, as it leaves the hydration, with two image results: before
  the last assignment \<open>missingCourses\<close> holds the code of the Summer check; the result
  holds every key of the reference but the first. The same in the report of the route
  for the two sample files.
\<close>

theorem validateOverallExtraction_missingCourses_witness:
  "set [canonicalCS101] \<subseteq> range hydrateSubject
   \<and> missingCourses (overallBeforeMissing [canonicalCS101] [goodImage, badImage]) = [''CS 122'']
   \<and> missingCourses (validateOverallExtraction [canonicalCS101] [goodImage, badImage]) =
       filter (\<lambda>code. normalizeCode code \<notin> normalizeCode ` subjectCode ` set [canonicalCS101])
         (map fst CURRICULUM_REFERENCE)
   \<and> missingCourses (validateOverallExtraction [canonicalCS101] [goodImage, badImage]) =
       tl (map fst CURRICULUM_REFERENCE)
   \<and> scanCurriculum (Some [fileA, fileB]) True sampleGroq = Report sampleReport
   \<and> scanCurriculumRoute (Some [fileA, fileB]) True sampleGroq = Handled (Report sampleReport)
   \<and> missingCourses (reportValidation sampleReport) =
       filter (\<lambda>code. normalizeCode code \<notin> normalizeCode ` subjectCode ` set (dataSubjects sampleReport))
         (map fst CURRICULUM_REFERENCE)"
proof -
  have hyd: "set [canonicalCS101] \<subseteq> range hydrateSubject"
    using hydrate_looseCS101 [symmetric] by auto
  have before:
    "missingCourses (overallBeforeMissing [canonicalCS101] [goodImage, badImage]) = [''CS 122'']"
    by (simp add: overallBeforeMissing_def Let_def summerCheck_def addIssue_simps
        yearsCheck_keeps totalCountCheck_def addWarning_simps counted_simps canonicalCS101_def)
  have code: "subjectCode canonicalCS101 = ''CS 101''" by (simp add: canonicalCS101_def)
  note c = validateOverallExtraction_missingCourses
             [of "[canonicalCS101]" "[goodImage, badImage]"
                 "Some [fileA, fileB]" True sampleGroq sampleReport "Some [fileA, fileB]"]
  from c hyd
  have normalized: "missingCourses (validateOverallExtraction [canonicalCS101] [goodImage, badImage]) =
       filter (\<lambda>code. normalizeCode code \<notin> normalizeCode ` subjectCode ` set [canonicalCS101])
         (map fst CURRICULUM_REFERENCE)"
    by blast
  from c sample_report
  have route: "missingCourses (reportValidation sampleReport) =
       filter (\<lambda>code. normalizeCode code \<notin> normalizeCode ` subjectCode ` set (dataSubjects sampleReport))
         (map fst CURRICULUM_REFERENCE)"
    by blast
  from c have "missingCourses (validateOverallExtraction [canonicalCS101] [goodImage, badImage]) =
       filter (\<lambda>code. code \<notin> subjectCode ` set [canonicalCS101]) (map fst CURRICULUM_REFERENCE)"
    by blast
  also have "\<dots> = tl (map fst CURRICULUM_REFERENCE)"
    by (simp add: code CURRICULUM_REFERENCE_def)
  finally show ?thesis using hyd before normalized route sample_report sample_route by simp
qed

section \<open>Deduplication keeps the first occurrence of each key\<close>

lemma filterSeen_index:
  "filterSeen seen xs =
     map (nth xs)
       (filter (\<lambda>i. dedupKey (xs ! i) \<notin> seen
                    \<and> (\<forall>j<i. dedupKey (xs ! j) \<noteq> dedupKey (xs ! i)))
          [0..<length xs])"
proof (induction xs arbitrary: seen)
  case Nil
  then show ?case by simp
next
  case (Cons x xs)
  let ?P = "\<lambda>seen ys i. dedupKey (ys ! i) \<notin> seen
                         \<and> (\<forall>j<i. dedupKey (ys ! j) \<noteq> dedupKey (ys ! i))"
  have upt: "[0..<length (x # xs)] = 0 # map Suc [0..<length xs]"
    by (simp add: upt_conv_Cons map_Suc_upt del: upt_Suc)
  have all_Suc: "(\<forall>j<Suc i. Q j) \<longleftrightarrow> Q 0 \<and> (\<forall>j<i. Q (Suc j))" for i Q
    by (metis less_Suc_eq_0_disj)
  have shift: "(dedupKey (xs ! i) \<notin> seen \<and>
                (\<forall>j<Suc i. dedupKey ((x # xs) ! j) \<noteq> dedupKey (xs ! i))) =
               (dedupKey (xs ! i) \<noteq> dedupKey x \<and> dedupKey (xs ! i) \<notin> seen \<and>
                (\<forall>j<i. dedupKey (xs ! j) \<noteq> dedupKey (xs ! i)))" for i
    by (auto simp add: all_Suc)
  have split: "map (nth (x # xs)) (filter (?P seen (x # xs)) [0..<length (x # xs)]) =
        (if dedupKey x \<notin> seen then [x] else []) @
        map (nth xs) (filter (?P (insert (dedupKey x) seen) xs) [0..<length xs])"
    unfolding upt by (simp add: filter_map comp_def shift del: upt_Suc)
  show ?case
  proof (cases "dedupKey x \<in> seen")
    case True
    then have "insert (dedupKey x) seen = seen" by auto
    with True show ?thesis
      unfolding split by (simp add: Let_def Cons.IH)
  next
    case False
    then show ?thesis
      unfolding split by (simp add: Let_def Cons.IH)
  qed
qed

text \<open>
  C5. The key of a subject is its code in lower case with all white space removed.
  Of the batches laid end to end, deduplication keeps the subjects at the positions
  before which no subject has the same key, whatever the later subjects with that key
  hold, and keeps them in the order of these positions. The result is no longer than
  the batches together.
\<close>

theorem uniqueSubjects_first_occurrences:
  "dedupKey s = removeWhitespace (toLowerCase (subjectCode s))
   \<and> uniqueSubjects (concat batches) =
       map (nth (concat batches))
         (filter (\<lambda>i. \<forall>j<i. dedupKey (concat batches ! j) \<noteq> dedupKey (concat batches ! i))
            [0..<length (concat batches)])
   \<and> length (uniqueSubjects (concat batches)) \<le> sum_list (map length batches)"
  using filterSeen_length [of "{}" "concat batches"]
  by (simp add: uniqueSubjects_def filterSeen_index length_concat dedupKey_def)

lemma dedupKey_samples: "dedupKey subjectA = ''cs101''" "dedupKey subjectB = ''cs101''"
  by code_simp+

theorem uniqueSubjects_first_occurrences_witness:
  "uniqueSubjects (concat [[subjectA], [subjectB]]) = [subjectA]
   \<and> length (uniqueSubjects (concat [[subjectA], [subjectB]])) \<le>
       sum_list (map length [[subjectA], [subjectB]])"
  using uniqueSubjects_first_occurrences [of subjectA "[[subjectA], [subjectB]]"]
  by (simp add: dedupKey_samples upt_conv_Cons del: upt_Suc)

section \<open>A failing image\<close>

text \<open>
  C8. The loop gives one result for each file, in order, whatever the recogniser does;
  the result of an image depends on that image alone; the subjects gathered for the
  merge are those of the results. When the processing of an image raises an exception
  with message \<open>msg\<close>, its validation is recorded as not good with \<open>msg\<close> as the only
  issue, and the image has no subject. With the API key set and at least one file, the
  route answers with a report built from all results.
\<close>

theorem processImages_failure_is_local:
  assumes "processImages g 0 files ([], []) = (irs, pushed)"
  shows "length irs = length files
     \<and> pushed = concat (map subjects irs)
     \<and> (\<forall>k<length files. irs ! k = fst (processImage g (int k + 1) (files ! k)))
     \<and> (\<forall>k<length files. \<forall>msg. g (files ! k) = Threw msg \<longrightarrow>
          validation (irs ! k) =
            Some \<lparr>isGood = False, issues = [msg], warnings = [],
                  subjectCount = 0, missingCourses = None\<rparr>
          \<and> subjects (irs ! k) = [])
     \<and> (files \<noteq> [] \<longrightarrow>
          scanCurriculum (Some files) True g =
            Report \<lparr>reportSuccess = success (validateOverallExtraction (uniqueSubjects pushed) irs),
                    reportQuality = quality (validateOverallExtraction (uniqueSubjects pushed) irs),
                    dataSubjects = uniqueSubjects pushed,
                    totalSubjectsFound = length (uniqueSubjects pushed),
                    imagesProcessed = length files,
                    reportValidation = validateOverallExtraction (uniqueSubjects pushed) irs,
                    reportImageResults = irs,
                    image1Good = imageGood irs 0,
                    image2Good = imageGood irs 1\<rparr>)"
proof -
  from assms
  have irs: "irs = map (\<lambda>(k, f). fst (processImage g (int k + 1) f)) (enumerate 0 files)"
    and pushed: "pushed =
      concat (map (\<lambda>(k, f). snd (processImage g (int k + 1) f)) (enumerate 0 files))"
    by (simp_all add: processImages_eq)
  have len: "length irs = length files" by (simp add: irs)
  have nth: "irs ! k = fst (processImage g (int k + 1) (files ! k))"
    if "k < length files" for k
    using that by (simp add: irs nth_enumerate_eq)
  have conc: "pushed = concat (map subjects irs)"
    by (simp add: irs pushed processImage_pushed comp_def case_prod_unfold)
  have threw: "validation (irs ! k) =
            Some \<lparr>isGood = False, issues = [msg], warnings = [],
                  subjectCount = 0, missingCourses = None\<rparr>
          \<and> subjects (irs ! k) = []"
    if "k < length files" "g (files ! k) = Threw msg" for k msg
    using that by (simp add: nth processImage_Threw)
  note report = scanCurriculum_report [OF assms]
  from len nth conc threw report show ?thesis by blast
qed

text \<open>
  Two files, the recogniser failing on the first: two results, the first with the
  failure as its only issue and no subject, the second with the subject read, which
  alone goes to the merge.
\<close>

theorem processImages_failure_is_local_witness:
  "length (fst (processImages sampleGroq 0 [fileA, fileB] ([], []))) = 2
   \<and> validation (fst (processImages sampleGroq 0 [fileA, fileB] ([], [])) ! 0) =
       Some \<lparr>isGood = False, issues = [''Could not parse AI response as JSON''],
             warnings = [], subjectCount = 0, missingCourses = None\<rparr>
   \<and> subjects (fst (processImages sampleGroq 0 [fileA, fileB] ([], [])) ! 0) = []
   \<and> subjects (fst (processImages sampleGroq 0 [fileA, fileB] ([], [])) ! 1) = [canonicalCS101]
   \<and> snd (processImages sampleGroq 0 [fileA, fileB] ([], [])) = [canonicalCS101]"
proof -
  define r where "r = processImages sampleGroq 0 [fileA, fileB] ([], [])"
  have eq: "processImages sampleGroq 0 [fileA, fileB] ([], []) = (fst r, snd r)"
    by (simp add: r_def)
  note t = processImages_failure_is_local [OF eq]
  have g0: "sampleGroq ([fileA, fileB] ! 0) = Threw ''Could not parse AI response as JSON''"
    by (simp add: sampleGroq_def fileA_def)
  note len_c = t [THEN conjunct1]
  note concat_c = t [THEN conjunct2, THEN conjunct1]
  note nth_c = t [THEN conjunct2, THEN conjunct2, THEN conjunct1, rule_format]
  note threw_c = t [THEN conjunct2, THEN conjunct2, THEN conjunct2, THEN conjunct1, rule_format]
  from len_c have len: "length (fst r) = 2" by simp
  have failed: "validation (fst r ! 0) =
       Some \<lparr>isGood = False, issues = [''Could not parse AI response as JSON''],
             warnings = [], subjectCount = 0, missingCourses = None\<rparr>
     \<and> subjects (fst r ! 0) = []"
    by (rule threw_c [of 0, OF _ g0]) simp
  have "fst r ! 1 = fst (processImage sampleGroq (int 1 + 1) ([fileA, fileB] ! 1))"
    by (rule nth_c) simp
  then have second: "subjects (fst r ! 1) = [canonicalCS101]"
    by (simp add: processImage_fileB flip: processImage_pushed)
  note concat_c
  also have "fst r = [fst r ! 0, fst r ! 1]"
    using len by (simp add: list_eq_iff_nth_eq less_Suc_eq numeral_2_eq_2)
  finally have "snd r = [canonicalCS101]" using failed second by simp
  with len failed second show ?thesis by (simp add: r_def)
qed


section \<open>The tiers of the whole scan, for the one or two images of a request\<close>

text \<open>
  C2. With 54 subjects or more the tier is excellent and the scan succeeds; with 50 to
  53 it is good, succeeds, and the only warning states the shortfall \<open>54 - count\<close>;
  with 45 to 49 it is moderate and, for the one or two images of a request, the scan
  succeeds exactly when every submitted image passed, or exactly one image was
  submitted and it passed; when it does not succeed, the first issue states the
  shortfall as the count out of 54. The function reads the first two image results;
  a report of the route always has one or two, and its fields are those of this
  validation.
\<close>

theorem validateOverallExtraction_tiers:
  "(54 \<le> length xs \<longrightarrow>
      quality (validateOverallExtraction xs irs) = ''excellent''
      \<and> success (validateOverallExtraction xs irs))
   \<and> (50 \<le> length xs \<and> length xs < 54 \<longrightarrow>
      quality (validateOverallExtraction xs irs) = ''good''
      \<and> success (validateOverallExtraction xs irs)
      \<and> warnings (validateOverallExtraction xs irs) =
          [string_of_nat (54 - length xs) @ '' subjects missing''])
   \<and> (45 \<le> length xs \<and> length xs < 50 \<longrightarrow>
      quality (validateOverallExtraction xs irs) = ''moderate''
      \<and> (length irs = 1 \<or> length irs = 2 \<longrightarrow>
           (success (validateOverallExtraction xs irs) \<longleftrightarrow>
              list_all passed irs \<or> (length irs = 1 \<and> passed (irs ! 0))))
      \<and> (length irs = 1 \<or> length irs = 2 \<longrightarrow>
           (success (validateOverallExtraction xs irs) \<longleftrightarrow> list_all passed irs))
      \<and> (success (validateOverallExtraction xs irs) \<longleftrightarrow>
           (imageGood irs 0 \<and> imageGood irs 1) \<or> (length irs = 1 \<and> imageGood irs 0))
      \<and> (\<not> success (validateOverallExtraction xs irs) \<longrightarrow>
           hd (issues (validateOverallExtraction xs irs)) =
             ''Only '' @ string_of_nat (length xs) @ ''/54 subjects extracted''))
   \<and> (scanCurriculumRoute incoming apiKeySet g = Handled (Report r) \<longrightarrow>
        (length (reportImageResults r) = 1 \<or> length (reportImageResults r) = 2)
        \<and> reportValidation r = validateOverallExtraction (dataSubjects r) (reportImageResults r)
        \<and> reportSuccess r = success (reportValidation r)
        \<and> reportQuality r = quality (reportValidation r)
        \<and> totalSubjectsFound r = length (dataSubjects r))"
proof -
  have two: "length irs = 2 \<Longrightarrow> list_all passed irs = (passed (irs ! 0) \<and> passed (irs ! 1))"
    by (cases irs; cases "tl irs") auto
  have one: "length irs = 1 \<Longrightarrow> list_all passed irs = passed (irs ! 0)"
    by (cases irs) auto
  have tiers: "(54 \<le> length xs \<longrightarrow>
      quality (validateOverallExtraction xs irs) = ''excellent''
      \<and> success (validateOverallExtraction xs irs))
   \<and> (50 \<le> length xs \<and> length xs < 54 \<longrightarrow>
      quality (validateOverallExtraction xs irs) = ''good''
      \<and> success (validateOverallExtraction xs irs)
      \<and> warnings (validateOverallExtraction xs irs) =
          [string_of_nat (54 - length xs) @ '' subjects missing''])
   \<and> (45 \<le> length xs \<and> length xs < 50 \<longrightarrow>
      quality (validateOverallExtraction xs irs) = ''moderate''
      \<and> (length irs = 1 \<or> length irs = 2 \<longrightarrow>
           (success (validateOverallExtraction xs irs) \<longleftrightarrow>
              list_all passed irs \<or> (length irs = 1 \<and> passed (irs ! 0))))
      \<and> (length irs = 1 \<or> length irs = 2 \<longrightarrow>
           (success (validateOverallExtraction xs irs) \<longleftrightarrow> list_all passed irs))
      \<and> (success (validateOverallExtraction xs irs) \<longleftrightarrow>
           (imageGood irs 0 \<and> imageGood irs 1) \<or> (length irs = 1 \<and> imageGood irs 0))
      \<and> (\<not> success (validateOverallExtraction xs irs) \<longrightarrow>
           hd (issues (validateOverallExtraction xs irs)) =
             ''Only '' @ string_of_nat (length xs) @ ''/54 subjects extracted''))"
    by (auto simp add: overall_success overall_quality overall_warnings overall_issues
        totalCountCheck_def Let_def imageGood_def addIssue_simps addWarning_simps
        counted_simps one two)
  from tiers route_report [of incoming apiKeySet g r] show ?thesis by blast
qed


text \<open>
  The first 54, 51 and 47 subjects of the reference, with one or two image results;
  and the report of the route for the two sample files, which has two image results.
\<close>

theorem validateOverallExtraction_tiers_witness:
  "quality (validateOverallExtraction (firstSubjects 54) [goodImage, badImage]) =
     ''excellent''
   \<and> success (validateOverallExtraction (firstSubjects 54) [goodImage, badImage])
   \<and> quality (validateOverallExtraction (firstSubjects 51) [goodImage, badImage]) =
       ''good''
   \<and> success (validateOverallExtraction (firstSubjects 51) [goodImage, badImage])
   \<and> warnings (validateOverallExtraction (firstSubjects 51) [goodImage, badImage]) =
       [''3 subjects missing'']
   \<and> quality (validateOverallExtraction (firstSubjects 47) [goodImage, goodImage]) =
       ''moderate''
   \<and> success (validateOverallExtraction (firstSubjects 47) [goodImage, goodImage])
   \<and> quality (validateOverallExtraction (firstSubjects 47) [goodImage]) = ''moderate''
   \<and> success (validateOverallExtraction (firstSubjects 47) [goodImage])
   \<and> quality (validateOverallExtraction (firstSubjects 47) [goodImage, badImage]) =
       ''moderate''
   \<and> \<not> success (validateOverallExtraction (firstSubjects 47) [goodImage, badImage])
   \<and> hd (issues (validateOverallExtraction (firstSubjects 47) [goodImage, badImage])) =
       ''Only 47/54 subjects extracted''
   \<and> scanCurriculumRoute (Some [fileA, fileB]) True sampleGroq = Handled (Report sampleReport)
   \<and> length (reportImageResults sampleReport) = 2"
proof -
  note a = validateOverallExtraction_tiers [of "firstSubjects 54" "[goodImage, badImage]"
                  "Some [fileA, fileB]" True sampleGroq sampleReport]
  note b = validateOverallExtraction_tiers [of "firstSubjects 51" "[goodImage, badImage]"
                  "Some [fileA, fileB]" True sampleGroq sampleReport]
  note c = validateOverallExtraction_tiers [of "firstSubjects 47" "[goodImage, goodImage]"
                  "Some [fileA, fileB]" True sampleGroq sampleReport]
  note d = validateOverallExtraction_tiers [of "firstSubjects 47" "[goodImage]"
                  "Some [fileA, fileB]" True sampleGroq sampleReport]
  note e = validateOverallExtraction_tiers [of "firstSubjects 47" "[goodImage, badImage]"
                  "Some [fileA, fileB]" True sampleGroq sampleReport]
  have len: "length (reportImageResults sampleReport) = 2"
    by (simp add: sampleReport_def sampleResults_def)
  from a b c d e len show ?thesis
    by (simp add: sample_route firstSubjects_length imageGood_def passed_samples
        string_of_nat.simps digitChar_def)
qed

section \<open>Requests rejected before any processing\<close>

text \<open>
  C9, as amended. A request with no file is answered by the handler with status 400.
  A request whose files pass the upload, with no API key, is answered by the handler
  with status 500. A request with a file of a type other than JPEG, PNG or WEBP is
  ended by the upload middleware with an error: the handler is not called, and the
  default error handler answers with status 500. In the three cases the answer does not
  depend on the recogniser: it is not called, and nothing is hydrated, validated or
  merged.
\<close>

theorem scanCurriculumRoute_rejects_input_errors:
  "(incoming = None \<or> incoming = Some [] \<longrightarrow>
      scanCurriculumRoute incoming apiKeySet g = Handled (Rejected 400 ''No image(s) uploaded''))
   \<and> (sent \<noteq> [] \<and> length sent \<le> 2
       \<and> (\<forall>f\<in>set sent. mimetype f \<in> {''image/jpeg'', ''image/png'', ''image/webp''}) \<longrightarrow>
      scanCurriculumRoute (Some sent) False g = Handled (Rejected 500 ''GROQ_API_KEY not set''))
   \<and> ((\<exists>f\<in>set (take 2 sent). mimetype f \<notin> {''image/jpeg'', ''image/png'', ''image/webp''}) \<longrightarrow>
      scanCurriculumRoute (Some sent) apiKeySet g =
        DefaultError 500 ''Only JPG, PNG, and WEBP images are allowed'')
   \<and> ((\<exists>f\<in>set sent. mimetype f \<notin> {''image/jpeg'', ''image/png'', ''image/webp''}) \<longrightarrow>
      scanCurriculumRoute (Some sent) apiKeySet g \<in>
        {DefaultError 500 ''Only JPG, PNG, and WEBP images are allowed'',
         DefaultError 500 ''Unexpected field''})
   \<and> (reqFiles = None \<or> reqFiles = Some [] \<longrightarrow>
      scanCurriculum reqFiles apiKeySet g = Rejected 400 ''No image(s) uploaded'')
   \<and> (files \<noteq> [] \<longrightarrow>
      scanCurriculum (Some files) False g = Rejected 500 ''GROQ_API_KEY not set'')
   \<and> (mimetype file \<notin> {''image/jpeg'', ''image/png'', ''image/webp''} \<longrightarrow>
      fileFilter file = Inl ''Only JPG, PNG, and WEBP images are allowed'')
   \<and> (mimetype file \<in> {''image/jpeg'', ''image/png'', ''image/webp''} \<longrightarrow>
      fileFilter file = Inr True)"
proof -
  have a: "scanCurriculumRoute incoming apiKeySet g = Handled (Rejected 400 ''No image(s) uploaded'')"
    if "incoming = None \<or> incoming = Some []"
    using that by (auto simp add: scanCurriculumRoute_def scanCurriculum_def)
  have b: "scanCurriculumRoute (Some sent) False g = Handled (Rejected 500 ''GROQ_API_KEY not set'')"
    if "sent \<noteq> []" "length sent \<le> 2"
       "\<forall>f\<in>set sent. mimetype f \<in> {''image/jpeg'', ''image/png'', ''image/webp''}"
    using that uploadArray_accepts [of sent 2]
    by (simp add: scanCurriculumRoute_def scanCurriculum_def)
  have c: "scanCurriculumRoute (Some sent) apiKeySet g =
        DefaultError 500 ''Only JPG, PNG, and WEBP images are allowed''"
    if "\<exists>f\<in>set (take 2 sent). mimetype f \<notin> {''image/jpeg'', ''image/png'', ''image/webp''}"
    using uploadArray_filter_error [OF that] by (simp add: scanCurriculumRoute_def)
  have d: "scanCurriculumRoute (Some sent) apiKeySet g \<in>
        {DefaultError 500 ''Only JPG, PNG, and WEBP images are allowed'',
         DefaultError 500 ''Unexpected field''}"
    if "\<exists>f\<in>set sent. mimetype f \<notin> {''image/jpeg'', ''image/png'', ''image/webp''}"
    using uploadArray_error [OF that, of 2] by (auto simp add: scanCurriculumRoute_def)
  have e: "(reqFiles = None \<or> reqFiles = Some [] \<longrightarrow>
      scanCurriculum reqFiles apiKeySet g = Rejected 400 ''No image(s) uploaded'')
   \<and> (files \<noteq> [] \<longrightarrow>
      scanCurriculum (Some files) False g = Rejected 500 ''GROQ_API_KEY not set'')"
    by (auto simp add: scanCurriculum_def)
  have f: "(mimetype file \<notin> {''image/jpeg'', ''image/png'', ''image/webp''} \<longrightarrow>
      fileFilter file = Inl ''Only JPG, PNG, and WEBP images are allowed'')
   \<and> (mimetype file \<in> {''image/jpeg'', ''image/png'', ''image/webp''} \<longrightarrow>
      fileFilter file = Inr True)"
    by (simp add: fileFilter_cases)
  from a b c d e f show ?thesis by blast
qed


text \<open>
  No file, with and without the key; two images without the key; a PDF file as second
  and as third file; the filter alone.
\<close>

theorem scanCurriculumRoute_rejects_input_errors_witness:
  "scanCurriculumRoute None True sampleGroq = Handled (Rejected 400 ''No image(s) uploaded'')
   \<and> scanCurriculumRoute (Some []) False sampleGroq = Handled (Rejected 400 ''No image(s) uploaded'')
   \<and> clientError 400
   \<and> scanCurriculumRoute (Some [fileA, fileB]) False sampleGroq =
       Handled (Rejected 500 ''GROQ_API_KEY not set'')
   \<and> scanCurriculumRoute (Some [fileA, pdfFile]) True sampleGroq =
       DefaultError 500 ''Only JPG, PNG, and WEBP images are allowed''
   \<and> scanCurriculumRoute (Some [fileA, fileB, pdfFile]) True sampleGroq =
       DefaultError 500 ''Unexpected field''
   \<and> fileFilter pdfFile = Inl ''Only JPG, PNG, and WEBP images are allowed''
   \<and> fileFilter fileA = Inr True"
proof -
  note t1 = scanCurriculumRoute_rejects_input_errors [of None True sampleGroq "[fileA, fileB]" None "[fileA, fileB]" pdfFile]
  note t2 = scanCurriculumRoute_rejects_input_errors [of "Some []" False sampleGroq "[fileA, fileB]" "Some []" "[fileA]" fileA]
  note t3 = scanCurriculumRoute_rejects_input_errors [of None True sampleGroq "[fileA, pdfFile]" None "[fileA]" fileA]
  note t4 = scanCurriculumRoute_rejects_input_errors [of None True sampleGroq "[fileA, fileB, pdfFile]" None "[fileA]" fileA]
  have third: "scanCurriculumRoute (Some [fileA, fileB, pdfFile]) True sampleGroq \<noteq>
       DefaultError 500 ''Only JPG, PNG, and WEBP images are allowed''"
    by (simp add: scanCurriculumRoute_def fileFilter_cases sample_mimetypes)
  from t1 t2 t3 t4 third show ?thesis
    by (simp add: clientError_def sample_mimetypes)
qed


text \<open>
  The claim as it was stated fails for the missing API key and for the disallowed file
  type: both are answered with status 500, which is not a client-side error.
\<close>

theorem scanCurriculumRoute_status_counterexample:
  "scanCurriculumRoute (Some [fileA]) False sampleGroq = Handled (Rejected 500 ''GROQ_API_KEY not set'')
   \<and> scanCurriculumRoute (Some [pdfFile]) True sampleGroq =
       DefaultError 500 ''Only JPG, PNG, and WEBP images are allowed''
   \<and> \<not> clientError 500"
  by (simp add: scanCurriculumRoute_def scanCurriculum_def fileFilter_cases sample_mimetypes clientError_def)

end
